theory Spec2Isabelle
  imports Main
begin

section \<open>Errors, diagnostics and results\<close>

text \<open>
  Go errors as values. \<open>AwsErr code message\<close> is an error of the AWS SDK
  (\<open>awserr.Error\<close>); \<open>NotFoundError\<close> is \<open>resource.NotFoundError\<close> with its
  \<open>LastError\<close>; \<open>EmptyResultError\<close> and \<open>TooManyResultsError\<close> are what
  \<open>tfresource.NewEmptyResultError\<close> and \<open>tfresource.NewTooManyResultsError\<close> build;
  \<open>TimeoutError\<close> is the timed-out error of the retry engine with the last error seen;
  \<open>Errorf\<close> is \<open>fmt.Errorf\<close> with string arguments only, \<open>Wrapf\<close> is
  \<open>fmt.Errorf\<close> whose last verb is \<open>%w\<close>. Format strings are kept unformatted,
  next to their arguments. A nil error is \<open>None\<close> of \<open>err option\<close>.
\<close>

datatype err =
    AwsErr string string
  | NotFoundError "err option"
  | EmptyResultError
  | TooManyResultsError nat
  | TimeoutError "err option"
  | Errorf string "string list"
  | Wrapf string "string list" err

datatype severity = Error | Warning

text \<open>
  Modelled from the spec: \<open>sdkdiag.AppendErrorf\<close> is not among the sources.
  Diagnostics are a sequence of pairs of a severity and a message; \<open>AppendErrorf(diags,
  format, args...)\<close> appends one of severity error. The message is kept as the format
  string and its arguments, which are strings or errors.
\<close>

datatype darg = ArgS string | ArgE "err option"

datatype diag = Diag severity string "darg list"

definition AppendErrorf :: "diag list \<Rightarrow> string \<Rightarrow> darg list \<Rightarrow> diag list" where
  "AppendErrorf diags format args = diags @ [Diag Error format args]"

text \<open>
  What a call of a Go function comes to: it returns, or it panics (a nil pointer
  dereference, a failed type assertion, an index out of range).
\<close>

datatype 'a outcome = Return 'a | Panic

text \<open>\<open>aws.StringValue\<close>: the string behind a pointer, the empty string behind nil.\<close>

definition StringValue :: "string option \<Rightarrow> string" where
  "StringValue p = (case p of None \<Rightarrow> [] | Some v \<Rightarrow> v)"

subsection \<open>Error classification\<close>

text \<open>
  \<open>errors.As(err, &awsErr)\<close>: the AWS error an error is, looking through
  \<open>%w\<close> wrapping. The result is its code and message.
\<close>

fun awsErr_of :: "err \<Rightarrow> (string \<times> string) option" where
  "awsErr_of (AwsErr code message) = Some (code, message)"
| "awsErr_of (Wrapf format args e) = awsErr_of e"
| "awsErr_of (NotFoundError lastError) = None"
| "awsErr_of EmptyResultError = None"
| "awsErr_of (TooManyResultsError n) = None"
| "awsErr_of (TimeoutError lastError) = None"
| "awsErr_of (Errorf format args) = None"

text \<open>\<open>tfawserr.ErrCodeEquals(err, codes...)\<close>; false for a nil error.\<close>

definition ErrCodeEquals :: "err option \<Rightarrow> string list \<Rightarrow> bool" where
  "ErrCodeEquals e codes =
     (case e of
        None \<Rightarrow> False
      | Some x \<Rightarrow> (case awsErr_of x of
                     None \<Rightarrow> False
                   | Some (code, message) \<Rightarrow> code \<in> set codes))"

text \<open>\<open>strings.Contains(s, sub)\<close>.\<close>

fun has_prefix :: "string \<Rightarrow> string \<Rightarrow> bool" where
  "has_prefix s [] = True"
| "has_prefix [] (p # ps) = False"
| "has_prefix (c # cs) (p # ps) = (c = p \<and> has_prefix cs ps)"

fun Contains :: "string \<Rightarrow> string \<Rightarrow> bool" where
  "Contains [] sub = (sub = [])"
| "Contains (c # cs) sub = (has_prefix (c # cs) sub \<or> Contains cs sub)"

text \<open>\<open>tfawserr.ErrMessageContains(err, code, message)\<close>.\<close>

definition ErrMessageContains :: "err option \<Rightarrow> string \<Rightarrow> string \<Rightarrow> bool" where
  "ErrMessageContains e code sub =
     (case e of
        None \<Rightarrow> False
      | Some x \<Rightarrow> (case awsErr_of x of
                     None \<Rightarrow> False
                   | Some (c, message) \<Rightarrow> c = code \<and> Contains message sub))"

text \<open>
  Modelled from the spec: \<open>tfresource.NotFound\<close> is not among the sources. The spec's
  error taxonomy makes NotFound the kind of a not-found error code, of an empty result
  and of a failed exact-match check, and makes the too-many-results error terminal; so
  the NotFound kind is \<open>NotFoundError\<close> and \<open>EmptyResultError\<close>, also when wrapped.
\<close>

fun NotFound_err :: "err \<Rightarrow> bool" where
  "NotFound_err (NotFoundError lastError) = True"
| "NotFound_err EmptyResultError = True"
| "NotFound_err (Wrapf format args e) = NotFound_err e"
| "NotFound_err (AwsErr code message) = False"
| "NotFound_err (TooManyResultsError n) = False"
| "NotFound_err (TimeoutError lastError) = False"
| "NotFound_err (Errorf format args) = False"

definition NotFound :: "err option \<Rightarrow> bool" where
  "NotFound e = (case e of None \<Rightarrow> False | Some x \<Rightarrow> NotFound_err x)"

text \<open>
  Modelled from the spec: \<open>verify.ErrorISOUnsupported(partition, err)\<close> is not among
  the sources. The spec speaks of a recognizable "unsupported in this partition" error
  signature of the remote's rejection; the signature is taken as a parameter, a predicate
  on the partition and on the code and message of the remote's error. An error that is
  no AWS error has no signature.
\<close>

definition ErrorISOUnsupported ::
  "(string \<Rightarrow> string \<Rightarrow> string \<Rightarrow> bool) \<Rightarrow> string \<Rightarrow> err option \<Rightarrow> bool" where
  "ErrorISOUnsupported signature partitionID e =
     (case e of
        None \<Rightarrow> False
      | Some x \<Rightarrow> (case awsErr_of x of
                     None \<Rightarrow> False
                   | Some (code, message) \<Rightarrow> signature partitionID code message))"

text \<open>\<open>endpoints.AwsPartitionID\<close> of the AWS SDK.\<close>

definition AwsPartitionID :: string where
  "AwsPartitionID = ''aws''"

section \<open>Tags\<close>

text \<open>
  Modelled from the spec: the package \<open>internal/tags\<close> is not among the sources. A
  tag set (\<open>tftags.KeyValueTags\<close>, a Go map) is an association list. The operations
  follow section 4.1 of the spec: merge is the union with the resource's tags taking
  precedence, the ignore filters remove the keys an ignore predicate matches (the
  platform's reserved prefix, or the keys and prefixes of the provider's configuration),
  \<open>Removed\<close> and \<open>Updated\<close> are the two halves of the diff, and subtracting the default
  tags removes every tag that the default configuration holds with the same value (a tag
  whose value differs from the default's is an override and stays).
\<close>

type_synonym KeyValueTags = "(string \<times> string) list"

record IgnoreConfig =
  Keys :: "string list"
  KeyPrefixes :: "string list"

definition AwsTagKeyPrefix :: string where
  "AwsTagKeyPrefix = ''aws:''"

definition MergeTags :: "KeyValueTags \<Rightarrow> KeyValueTags \<Rightarrow> KeyValueTags" where
  "MergeTags defaults tags = tags @ filter (\<lambda>(k, v). k \<notin> fst ` set tags) defaults"

definition IgnoreAWS :: "KeyValueTags \<Rightarrow> KeyValueTags" where
  "IgnoreAWS tags = filter (\<lambda>(k, v). \<not> has_prefix k AwsTagKeyPrefix) tags"

definition IgnoreConfig_tags :: "KeyValueTags \<Rightarrow> IgnoreConfig \<Rightarrow> KeyValueTags" where
  "IgnoreConfig_tags tags cfg =
     filter (\<lambda>(k, v). k \<notin> set (Keys cfg) \<and> \<not> list_ex (has_prefix k) (KeyPrefixes cfg)) tags"

definition RemoveDefaultConfig :: "KeyValueTags \<Rightarrow> KeyValueTags \<Rightarrow> KeyValueTags" where
  "RemoveDefaultConfig tags defaults = filter (\<lambda>(k, v). map_of defaults k \<noteq> Some v) tags"




section \<open>The provider's client and the resource data\<close>

text \<open>
  \<open>meta.(*conns.AWSClient)\<close>: the partition, the default tags and the ignore
  configuration. What the sources use and do not define is carried here as parameters:
  the signature of \<open>verify.ErrorISOUnsupported\<close>, the poll interval of the retry
  engine, and the package constants \<open>propagationTimeout\<close> and
  \<open>taskSetCreateTimeout\<close>. Durations are counted in ticks.
\<close>

record AWSClient =
  Partition :: string
  DefaultTagsConfig :: KeyValueTags
  IgnoreTagsConfig :: IgnoreConfig
  ISOUnsupportedSignature :: "string \<Rightarrow> string \<Rightarrow> string \<Rightarrow> bool"
  pollInterval :: nat
  propagationTimeout :: nat
  taskSetCreateTimeout :: nat

text \<open>
  \<open>schema.ResourceData\<close>: the identity, the new-resource mark, and the attributes by
  name and type: \<open>d.Get("name").(string)\<close> is \<open>strs d ''name''\<close>, \<open>d.Set\<close> updates
  the store, \<open>d.Timeout(key)\<close> is \<open>timeouts d key\<close>. \<open>d.GetOk\<close> of a map reports
  a map that is not empty. Nested blocks that no branch of the modelled functions tests
  (encryption and scanning configuration, network configuration, load balancers, scale,
  service registries, capacity providers) and the client token of a create request are
  left out of the requests and of the data; \<open>d.Set\<close> of a value of the attribute's
  type does not fail.
\<close>

record ResourceData =
  ID :: string
  IsNewResource :: bool
  strs :: "string \<Rightarrow> string"
  bools :: "string \<Rightarrow> bool"
  tagmaps :: "string \<Rightarrow> KeyValueTags"
  timeouts :: "string \<Rightarrow> nat"

definition SetId :: "ResourceData \<Rightarrow> string \<Rightarrow> ResourceData" where
  "SetId d v = d\<lparr>ID := v\<rparr>"

definition Set_str :: "ResourceData \<Rightarrow> string \<Rightarrow> string \<Rightarrow> ResourceData" where
  "Set_str d key v = d\<lparr>strs := (strs d)(key := v)\<rparr>"

definition Set_tags :: "ResourceData \<Rightarrow> string \<Rightarrow> KeyValueTags \<Rightarrow> ResourceData" where
  "Set_tags d key v = d\<lparr>tagmaps := (tagmaps d)(key := v)\<rparr>"

section \<open>The retry engine\<close>

text \<open>
  Modelled from the spec: the package \<open>internal/tfresource\<close> is not among the sources.
  Section 4.3 of the spec: on each poll the probe \<open>f\<close> is invoked; a retryable failure
  sleeps the poll interval and polls again unless the elapsed time exceeds the caller's
  timeout, when the engine returns the timed-out error with the last error seen; a
  terminal failure is returned at once; a success returns the probe's output. The probe
  works on the remote state \<open>'s\<close> and returns the new one. The classifier is the second
  function argument of \<open>tfresource.RetryWhen\<close>, as \<open>retryTaskSetCreate\<close> calls it. An
  interval of zero ticks counts as one.
\<close>

function RetryWhen_from ::
  "nat \<Rightarrow> nat \<Rightarrow> nat \<Rightarrow> ('s \<Rightarrow> ('a option \<times> err option) \<times> 's) \<Rightarrow>
   (err option \<Rightarrow> bool \<times> err option) \<Rightarrow> 's \<Rightarrow> ('a option \<times> err option) \<times> 's" where
  "RetryWhen_from interval timeout elapsed f retryable s =
     (case f s of
        ((output, e), s') \<Rightarrow>
          (case retryable e of
             (retry, e') \<Rightarrow>
               if retry then
                 (if timeout < elapsed then ((None, Some (TimeoutError e')), s')
                  else RetryWhen_from interval timeout (elapsed + max 1 interval) f retryable s')
               else if e' \<noteq> None then ((None, e'), s')
               else ((output, None), s')))"
  by pat_completeness auto
termination
  by (relation "measure (\<lambda>(interval, timeout, elapsed, f, retryable, s). Suc timeout - elapsed)") auto

definition RetryWhen ::
  "nat \<Rightarrow> nat \<Rightarrow> ('s \<Rightarrow> ('a option \<times> err option) \<times> 's) \<Rightarrow>
   (err option \<Rightarrow> bool \<times> err option) \<Rightarrow> 's \<Rightarrow> ('a option \<times> err option) \<times> 's" where
  "RetryWhen interval timeout f retryable s = RetryWhen_from interval timeout 0 f retryable s"

text \<open>
  Wait-until-deleted: NotFound is the success condition, any other error is terminal,
  and a resource that is still found is the retryable outcome.
\<close>

definition ErrFoundResource :: err where
  "ErrFoundResource = Errorf ''found resource'' []"

definition RetryUntilNotFound ::
  "nat \<Rightarrow> nat \<Rightarrow> ('s \<Rightarrow> ('a option \<times> err option) \<times> 's) \<Rightarrow> 's \<Rightarrow>
   ('a option \<times> err option) \<times> 's" where
  "RetryUntilNotFound interval timeout f s =
     RetryWhen interval timeout f
       (\<lambda>e. if NotFound e then (False, None)
            else if e \<noteq> None then (False, e)
            else (True, Some ErrFoundResource)) s"

text \<open>
  The read of a new resource: NotFound is retryable while the resource is new (it may
  not be visible yet), and returned at once otherwise.
\<close>

definition RetryWhenNewResourceNotFound ::
  "nat \<Rightarrow> nat \<Rightarrow> ('s \<Rightarrow> ('a option \<times> err option) \<times> 's) \<Rightarrow> bool \<Rightarrow> 's \<Rightarrow>
   ('a option \<times> err option) \<times> 's" where
  "RetryWhenNewResourceNotFound interval timeout f isNewResource s =
     RetryWhen interval timeout f
       (\<lambda>e. if isNewResource \<and> NotFound e then (True, e) else (False, e)) s"

text \<open>
  A Go function that returns \<open>(nil, err)\<close> or \<open>(value, nil)\<close>, seen as the pair a
  closure of type \<open>func() (interface{}, error)\<close> returns.
\<close>

definition as_pair :: "err + 'a \<Rightarrow> 'a option \<times> err option" where
  "as_pair r = (case r of Inl e \<Rightarrow> (None, Some e) | Inr v \<Rightarrow> (Some v, None))"

section \<open>ECR repository\<close>

record Repository =
  RepositoryArn :: "string option"
  RepositoryName :: "string option"
  RegistryId :: "string option"
  RepositoryUri :: "string option"
  ImageTagMutability :: "string option"

record CreateRepositoryInput =
  in_ImageTagMutability :: "string option"
  in_RepositoryName :: "string option"
  in_Tags :: "KeyValueTags option"

record DeleteRepositoryInput =
  del_Force :: bool
  del_RegistryId :: string
  del_RepositoryName :: string

text \<open>
  The remote calls of the ECR functions, in the order they were made. \<open>UpdateTags\<close> and
  \<open>ListTags\<close> of the ECR package are generated code that is not among the sources; each
  is one entry of the log.
\<close>

datatype ecr_call =
    CreateRepository CreateRepositoryInput
  | DescribeRepositories "string list"
  | DeleteRepository DeleteRepositoryInput
  | UpdateTags_call string KeyValueTags KeyValueTags
  | ListTags_call string

text \<open>
  The connection: the partition, and the remote's answer to each call, which may depend
  on the calls made before. \<open>CreateRepositoryWithContext\<close> answers with
  \<open>output.Repository\<close> (nil when the output or its repository is nil) and the error;
  \<open>DescribeRepositoriesWithContext\<close> with \<open>output.Repositories\<close> (\<open>None\<close> for a
  nil output; an entry is a pointer and may be nil) and the error.
\<close>

record ECR =
  PartitionID :: string
  CreateRepositoryWithContext ::
    "ecr_call list \<Rightarrow> CreateRepositoryInput \<Rightarrow> Repository option \<times> err option"
  DescribeRepositoriesWithContext ::
    "ecr_call list \<Rightarrow> string list \<Rightarrow> Repository option list option \<times> err option"
  DeleteRepositoryWithContext :: "ecr_call list \<Rightarrow> DeleteRepositoryInput \<Rightarrow> err option"
  UpdateTags :: "ecr_call list \<Rightarrow> string \<Rightarrow> KeyValueTags \<Rightarrow> KeyValueTags \<Rightarrow> err option"
  ListTags :: "ecr_call list \<Rightarrow> string \<Rightarrow> KeyValueTags \<times> err option"

definition ErrCodeRepositoryNotFoundException :: string where
  "ErrCodeRepositoryNotFoundException = ''RepositoryNotFoundException''"

definition ErrCodeRepositoryNotEmptyException :: string where
  "ErrCodeRepositoryNotEmptyException = ''RepositoryNotEmptyException''"

definition FindRepository ::
  "ECR \<Rightarrow> string list \<Rightarrow> ecr_call list \<Rightarrow> (err + Repository) \<times> ecr_call list" where
  "FindRepository conn input log =
     (case DescribeRepositoriesWithContext conn log input of
        (output, e) \<Rightarrow>
          (let log' = log @ [DescribeRepositories input] in
           if ErrCodeEquals e [ErrCodeRepositoryNotFoundException]
           then (Inl (NotFoundError e), log')
           else (case e of
                   Some x \<Rightarrow> (Inl x, log')
                 | None \<Rightarrow>
                     (case output of
                        None \<Rightarrow> (Inl EmptyResultError, log')
                      | Some [] \<Rightarrow> (Inl EmptyResultError, log')
                      | Some (None # rest) \<Rightarrow> (Inl EmptyResultError, log')
                      | Some (Some r # rest) \<Rightarrow>
                          if length (Some r # rest) > 1
                          then (Inl (TooManyResultsError (length (Some r # rest))), log')
                          else (Inr r, log')))))"

definition FindRepositoryByName ::
  "ECR \<Rightarrow> string \<Rightarrow> ecr_call list \<Rightarrow> (err + Repository) \<times> ecr_call list" where
  "FindRepositoryByName conn name log =
     (case FindRepository conn [name] log of
        (Inl e, log') \<Rightarrow> (Inl e, log')
      | (Inr output, log') \<Rightarrow>
          if StringValue (RepositoryName output) \<noteq> name
          then (Inl (NotFoundError None), log')
          else (Inr output, log'))"

text \<open>
  \<open>resourceRepositoryRead\<close>. After the finder, the source tests only for a not-found
  error of a resource that is not new and then asserts \<open>outputRaw.(*ecr.Repository)\<close>
  and reads its fields: with no repository in hand that is a panic.
\<close>

definition resourceRepositoryRead ::
  "AWSClient \<Rightarrow> ECR \<Rightarrow> ResourceData \<Rightarrow> ecr_call list \<Rightarrow>
   (diag list \<times> ResourceData \<times> ecr_call list) outcome" where
  "resourceRepositoryRead meta conn d log =
     (case RetryWhenNewResourceNotFound (pollInterval meta) (propagationTimeout meta)
             (\<lambda>l. case FindRepositoryByName conn (ID d) l of (r, l') \<Rightarrow> (as_pair r, l'))
             (IsNewResource d) log of
        ((outputRaw, e), log1) \<Rightarrow>
          if \<not> IsNewResource d \<and> NotFound e then Return ([], SetId d [], log1)
          else
            (case outputRaw of
               None \<Rightarrow> Panic
             | Some repository \<Rightarrow>
                 (let arn = StringValue (RepositoryArn repository);
                      d1 = Set_str d ''arn'' arn;
                      d2 = Set_str d1 ''image_tag_mutability'' (StringValue (ImageTagMutability repository));
                      d3 = Set_str d2 ''name'' (StringValue (RepositoryName repository));
                      d4 = Set_str d3 ''registry_id'' (StringValue (RegistryId repository));
                      d5 = Set_str d4 ''repository_url'' (StringValue (RepositoryUri repository));
                      log2 = log1 @ [ListTags_call arn]
                  in case ListTags conn log1 arn of
                       (tags, e2) \<Rightarrow>
                         if Partition meta \<noteq> AwsPartitionID \<and>
                            ErrorISOUnsupported (ISOUnsupportedSignature meta) (PartitionID conn) e2
                         then Return ([], d5, log2)
                         else if e2 \<noteq> None
                         then Return (AppendErrorf [] ''listing tags for ECR Repository (%s): %s''
                                        [ArgS (ID d), ArgE e2], d5, log2)
                         else
                           (let tags' = IgnoreConfig_tags (IgnoreAWS tags) (IgnoreTagsConfig meta);
                                d6 = Set_tags d5 ''tags'' (RemoveDefaultConfig tags' (DefaultTagsConfig meta));
                                d7 = Set_tags d6 ''tags_all'' tags'
                            in Return ([], d7, log2)))))"

definition resourceRepositoryCreate ::
  "AWSClient \<Rightarrow> ECR \<Rightarrow> ResourceData \<Rightarrow> ecr_call list \<Rightarrow>
   (diag list \<times> ResourceData \<times> ecr_call list) outcome" where
  "resourceRepositoryCreate meta conn d log =
     (let tags = MergeTags (DefaultTagsConfig meta) (tagmaps d ''tags'');
          name = strs d ''name'';
          input0 = \<lparr>in_ImageTagMutability = Some (strs d ''image_tag_mutability''),
                    in_RepositoryName = Some name,
                    in_Tags = None\<rparr>;
          input1 = (if tags \<noteq> [] then input0\<lparr>in_Tags := Some (IgnoreAWS tags)\<rparr> else input0);
          first = CreateRepositoryWithContext conn log input1;
          log1 = log @ [CreateRepository input1];
          again = (in_Tags input1 \<noteq> None \<and> Partition meta \<noteq> AwsPartitionID \<and>
                   ErrorISOUnsupported (ISOUnsupportedSignature meta) (PartitionID conn) (snd first));
          input2 = (if again then input1\<lparr>in_Tags := None\<rparr> else input1);
          result = (if again then CreateRepositoryWithContext conn log1 input2 else first);
          log2 = (if again then log1 @ [CreateRepository input2] else log1)
      in if snd result \<noteq> None
         then Return (AppendErrorf [] ''creating ECR Repository (%s): %s''
                        [ArgS name, ArgE (snd result)], d, log2)
         else
           (case fst result of
              None \<Rightarrow> Panic
            | Some repository \<Rightarrow>
                (let d1 = SetId d (StringValue (RepositoryName repository)) in
                 if in_Tags input2 = None \<and> tags \<noteq> [] \<and> Partition meta \<noteq> AwsPartitionID
                 then
                   (let arn = StringValue (RepositoryArn repository);
                        e3 = UpdateTags conn log2 arn [] tags;
                        log3 = log2 @ [UpdateTags_call arn [] tags]
                    in if tagmaps d ''tags'' = [] \<and>
                          ErrorISOUnsupported (ISOUnsupportedSignature meta) (PartitionID conn) e3
                       then resourceRepositoryRead meta conn d1 log3
                       else if e3 \<noteq> None
                       then Return (AppendErrorf [] ''adding tags after create for ECR Repository (%s): %s''
                                      [ArgS (ID d1), ArgE e3], d1, log3)
                       else resourceRepositoryRead meta conn d1 log3)
                 else resourceRepositoryRead meta conn d1 log2)))"

definition resourceRepositoryDelete ::
  "AWSClient \<Rightarrow> ECR \<Rightarrow> ResourceData \<Rightarrow> ecr_call list \<Rightarrow>
   (diag list \<times> ResourceData \<times> ecr_call list) outcome" where
  "resourceRepositoryDelete meta conn d log =
     (let input = \<lparr>del_Force = bools d ''force_delete'',
                   del_RegistryId = strs d ''registry_id'',
                   del_RepositoryName = ID d\<rparr>;
          e = DeleteRepositoryWithContext conn log input;
          log1 = log @ [DeleteRepository input]
      in if ErrCodeEquals e [ErrCodeRepositoryNotFoundException] then Return ([], d, log1)
         else if ErrCodeEquals e [ErrCodeRepositoryNotEmptyException]
         then Return (AppendErrorf [] ''ECR Repository (%s) not empty, consider using force_delete: %s''
                        [ArgS (ID d), ArgE e], d, log1)
         else if e \<noteq> None
         then Return (AppendErrorf [] ''deleting ECR Repository (%s): %s''
                        [ArgS (ID d), ArgE e], d, log1)
         else
           (case RetryUntilNotFound (pollInterval meta) (timeouts d ''delete'')
                   (\<lambda>l. case FindRepositoryByName conn (ID d) l of (r, l') \<Rightarrow> (as_pair r, l'))
                   log1 of
              ((found, e2), log2) \<Rightarrow>
                if e2 \<noteq> None
                then Return (AppendErrorf [] ''waiting for ECR Repository (%s) delete: %s''
                               [ArgS (ID d), ArgE e2], d, log2)
                else Return ([], d, log2)))"

section \<open>ECS task set: the composite identity\<close>

text \<open>
  \<open>strings.Split(s, ",")\<close>: the fields between the separators; a string with no
  separator (the empty string too) is one field.
\<close>

fun Split :: "string \<Rightarrow> char \<Rightarrow> string list" where
  "Split [] sep = [[]]"
| "Split (c # cs) sep =
     (if c = sep then [] # Split cs sep
      else (case Split cs sep of
              [] \<Rightarrow> [[c]]
            | p # ps \<Rightarrow> (c # p) # ps))"

text \<open>
  The identity set by \<open>resourceTaskSetCreate\<close>:
  \<open>fmt.Sprintf("%s,%s,%s", taskSetId, service, cluster)\<close>.
\<close>

definition TaskSetFormatID :: "string \<Rightarrow> string \<Rightarrow> string \<Rightarrow> string" where
  "TaskSetFormatID taskSetId service cluster =
     taskSetId @ '','' @ service @ '','' @ cluster"

definition TaskSetParseID :: "string \<Rightarrow> err + (string \<times> string \<times> string)" where
  "TaskSetParseID ident =
     (let parts = Split ident (CHR '','') in
      if length parts \<noteq> 3 \<or> parts ! 0 = [] \<or> parts ! 1 = [] \<or> parts ! 2 = []
      then Inl (Errorf ''unexpected format of ID (%q), expected TASK_SET_ID,SERVICE,CLUSTER'' [ident])
      else Inr (parts ! 0, parts ! 1, parts ! 2))"

section \<open>ECS task set: create, read, delete\<close>

record TaskSet =
  TaskSetArn :: "string option"
  TaskSet_Id :: "string option"
  LaunchType :: "string option"
  PlatformVersion :: "string option"
  ExternalId :: "string option"
  Status :: "string option"
  StabilityStatus :: "string option"
  TaskDefinition :: "string option"
  TaskSet_Tags :: KeyValueTags

record CreateTaskSetInput =
  cts_Cluster :: "string option"
  cts_Service :: "string option"
  cts_TaskDefinition :: "string option"
  cts_ExternalId :: "string option"
  cts_LaunchType :: "string option"
  cts_PlatformVersion :: "string option"
  cts_Tags :: "KeyValueTags option"

record CreateTaskSetOutput =
  out_TaskSet :: "TaskSet option"

record DescribeTaskSetsInput =
  dts_Cluster :: string
  dts_Include :: "string list option"
  dts_Service :: string
  dts_TaskSets :: "string list"

record DeleteTaskSetInput =
  dlt_Cluster :: string
  dlt_Service :: string
  dlt_TaskSet :: string
  dlt_Force :: bool

text \<open>
  The remote calls of the task-set functions. \<open>UpdateTags\<close> of the ECS package and the
  waiters \<open>waitTaskSetStable\<close> and \<open>waitTaskSetDeleted\<close> are not among the sources:
  each is one entry of the log, and its result is the connection's answer. The stable
  waiter takes the timeout as the string of the attribute \<open>wait_until_stable_timeout\<close>.
\<close>

datatype ecs_call =
    CreateTaskSet CreateTaskSetInput
  | DescribeTaskSets DescribeTaskSetsInput
  | DeleteTaskSet DeleteTaskSetInput
  | ecs_UpdateTags_call string KeyValueTags KeyValueTags
  | waitTaskSetStable_call string string string string
  | waitTaskSetDeleted_call string string string

record ECS =
  ecs_PartitionID :: string
  CreateTaskSetWithContext ::
    "ecs_call list \<Rightarrow> CreateTaskSetInput \<Rightarrow> CreateTaskSetOutput option \<times> err option"
  DescribeTaskSetsWithContext ::
    "ecs_call list \<Rightarrow> DescribeTaskSetsInput \<Rightarrow> TaskSet option list option \<times> err option"
  DeleteTaskSetWithContext :: "ecs_call list \<Rightarrow> DeleteTaskSetInput \<Rightarrow> err option"
  ecs_UpdateTags :: "ecs_call list \<Rightarrow> string \<Rightarrow> KeyValueTags \<Rightarrow> KeyValueTags \<Rightarrow> err option"
  waitTaskSetStable :: "ecs_call list \<Rightarrow> string \<Rightarrow> string \<Rightarrow> string \<Rightarrow> string \<Rightarrow> err option"
  waitTaskSetDeleted :: "ecs_call list \<Rightarrow> string \<Rightarrow> string \<Rightarrow> string \<Rightarrow> err option"

definition ErrCodeClusterNotFoundException :: string where
  "ErrCodeClusterNotFoundException = ''ClusterNotFoundException''"

definition ErrCodeServiceNotFoundException :: string where
  "ErrCodeServiceNotFoundException = ''ServiceNotFoundException''"

definition ErrCodeTaskSetNotFoundException :: string where
  "ErrCodeTaskSetNotFoundException = ''TaskSetNotFoundException''"

definition ErrCodeInvalidParameterException :: string where
  "ErrCodeInvalidParameterException = ''InvalidParameterException''"

definition TaskSetFieldTags :: string where
  "TaskSetFieldTags = ''TAGS''"

text \<open>The classifier \<open>retryTaskSetCreate\<close> hands to \<open>tfresource.RetryWhen\<close>.\<close>

definition taskSetCreateRetryable :: "err option \<Rightarrow> bool \<times> err option" where
  "taskSetCreateRetryable e =
     (if ErrCodeEquals e [ErrCodeClusterNotFoundException, ErrCodeServiceNotFoundException,
                          ErrCodeTaskSetNotFoundException] \<or>
         ErrMessageContains e ErrCodeInvalidParameterException
           ''does not have an associated load balancer''
      then (True, e) else (False, e))"

definition retryTaskSetCreate ::
  "AWSClient \<Rightarrow> ECS \<Rightarrow> CreateTaskSetInput \<Rightarrow> ecs_call list \<Rightarrow>
   (CreateTaskSetOutput option \<times> err option) \<times> ecs_call list" where
  "retryTaskSetCreate meta conn input log =
     (case RetryWhen (pollInterval meta) (propagationTimeout meta + taskSetCreateTimeout meta)
             (\<lambda>l. (CreateTaskSetWithContext conn l input, l @ [CreateTaskSet input]))
             taskSetCreateRetryable log of
        ((outputRaw, e), log') \<Rightarrow>
          (case outputRaw of
             None \<Rightarrow> ((None, Some (Errorf ''error creating ECS TaskSet: empty output'' [])), log')
           | Some output \<Rightarrow>
               if out_TaskSet output = None
               then ((None, Some (Errorf ''error creating ECS TaskSet: empty output'' [])), log')
               else ((Some output, e), log')))"

text \<open>\<open>d.GetOk\<close> of a string attribute: the value, when it is not the empty string.\<close>

definition GetOk_str :: "ResourceData \<Rightarrow> string \<Rightarrow> string option" where
  "GetOk_str d key = (if strs d key = [] then None else Some (strs d key))"

definition resourceTaskSetRead ::
  "AWSClient \<Rightarrow> ECS \<Rightarrow> ResourceData \<Rightarrow> ecs_call list \<Rightarrow>
   (diag list \<times> ResourceData \<times> ecs_call list) outcome" where
  "resourceTaskSetRead meta conn d log =
     (case TaskSetParseID (ID d) of
        Inl perr \<Rightarrow>
          Return (AppendErrorf [] ''reading ECS Task Set (%s): %s'' [ArgS (ID d), ArgE (Some perr)], d, log)
      | Inr (taskSetId, service, cluster) \<Rightarrow>
          (let input = \<lparr>dts_Cluster = cluster, dts_Include = Some [TaskSetFieldTags],
                        dts_Service = service, dts_TaskSets = [taskSetId]\<rparr>;
               first = DescribeTaskSetsWithContext conn log input;
               log1 = log @ [DescribeTaskSets input]
           in if \<not> IsNewResource d \<and>
                 ErrCodeEquals (snd first) [ErrCodeClusterNotFoundException,
                   ErrCodeServiceNotFoundException, ErrCodeTaskSetNotFoundException]
              then Return ([], SetId d [], log1)
              else
                (let again = ErrorISOUnsupported (ISOUnsupportedSignature meta) (ecs_PartitionID conn) (snd first);
                     input2 = input\<lparr>dts_Include := None\<rparr>;
                     result = (if again then DescribeTaskSetsWithContext conn log1 input2 else first);
                     log2 = (if again then log1 @ [DescribeTaskSets input2] else log1)
                 in if snd result \<noteq> None
                    then Return (AppendErrorf [] ''reading ECS Task Set (%s): %s''
                                   [ArgS (ID d), ArgE (snd result)], d, log2)
                    else
                      (case fst result of
                         None \<Rightarrow>
                           if IsNewResource d
                           then Return (AppendErrorf [] ''reading ECS Task Set (%s): empty output after creation''
                                          [ArgS (ID d)], d, log2)
                           else Return ([], SetId d [], log2)
                       | Some [] \<Rightarrow>
                           if IsNewResource d
                           then Return (AppendErrorf [] ''reading ECS Task Set (%s): empty output after creation''
                                          [ArgS (ID d)], d, log2)
                           else Return ([], SetId d [], log2)
                       | Some (None # rest) \<Rightarrow> Panic
                       | Some (Some taskSet # rest) \<Rightarrow>
                           (let d1 = Set_str d ''arn'' (StringValue (TaskSetArn taskSet));
                                d2 = Set_str d1 ''cluster'' cluster;
                                d3 = Set_str d2 ''launch_type'' (StringValue (LaunchType taskSet));
                                d4 = Set_str d3 ''platform_version'' (StringValue (PlatformVersion taskSet));
                                d5 = Set_str d4 ''external_id'' (StringValue (ExternalId taskSet));
                                d6 = Set_str d5 ''service'' service;
                                d7 = Set_str d6 ''status'' (StringValue (Status taskSet));
                                d8 = Set_str d7 ''stability_status'' (StringValue (StabilityStatus taskSet));
                                d9 = Set_str d8 ''task_definition'' (StringValue (TaskDefinition taskSet));
                                d10 = Set_str d9 ''task_set_id'' (StringValue (TaskSet_Id taskSet));
                                tags = IgnoreConfig_tags (IgnoreAWS (TaskSet_Tags taskSet)) (IgnoreTagsConfig meta);
                                d11 = Set_tags d10 ''tags'' (RemoveDefaultConfig tags (DefaultTagsConfig meta));
                                d12 = Set_tags d11 ''tags_all'' tags
                            in Return ([], d12, log2))))))"

definition resourceTaskSetCreate ::
  "AWSClient \<Rightarrow> ECS \<Rightarrow> ResourceData \<Rightarrow> ecs_call list \<Rightarrow>
   (diag list \<times> ResourceData \<times> ecs_call list) outcome" where
  "resourceTaskSetCreate meta conn d log =
     (let tags = MergeTags (DefaultTagsConfig meta) (tagmaps d ''tags'');
          cluster = strs d ''cluster'';
          service = strs d ''service'';
          input0 = \<lparr>cts_Cluster = Some cluster, cts_Service = Some service,
                    cts_TaskDefinition = Some (strs d ''task_definition''),
                    cts_ExternalId = GetOk_str d ''external_id'',
                    cts_LaunchType = GetOk_str d ''launch_type'',
                    cts_PlatformVersion = GetOk_str d ''platform_version'',
                    cts_Tags = None\<rparr>;
          input1 = (if tags \<noteq> [] then input0\<lparr>cts_Tags := Some (IgnoreAWS tags)\<rparr> else input0);
          first = retryTaskSetCreate meta conn input1 log;
          again = (cts_Tags input1 \<noteq> None \<and>
                   ErrorISOUnsupported (ISOUnsupportedSignature meta) (ecs_PartitionID conn) (snd (fst first)));
          input2 = (if again then input1\<lparr>cts_Tags := None\<rparr> else input1);
          result = (if again then retryTaskSetCreate meta conn input2 (snd first) else first);
          log2 = snd result
      in if snd (fst result) \<noteq> None
         then Return (AppendErrorf [] ''creating ECS TaskSet: %s'' [ArgE (snd (fst result))], d, log2)
         else
           (case fst (fst result) of
              None \<Rightarrow> Panic
            | Some output \<Rightarrow>
                (case out_TaskSet output of
                   None \<Rightarrow> Panic
                 | Some taskSet \<Rightarrow>
                     (let taskSetId = StringValue (TaskSet_Id taskSet);
                          d1 = SetId d (TaskSetFormatID taskSetId service cluster);
                          stable = (if bools d ''wait_until_stable''
                                    then waitTaskSetStable conn log2 (strs d ''wait_until_stable_timeout'')
                                           taskSetId service cluster
                                    else None);
                          log3 = (if bools d ''wait_until_stable''
                                  then log2 @ [waitTaskSetStable_call (strs d ''wait_until_stable_timeout'')
                                                 taskSetId service cluster]
                                  else log2)
                      in if stable \<noteq> None
                         then Return (AppendErrorf [] ''waiting for ECS Task Set (%s) to be stable: %s''
                                        [ArgS (ID d1), ArgE stable], d1, log3)
                         else if cts_Tags input2 = None \<and> tags \<noteq> []
                         then
                           (let arn = StringValue (TaskSetArn taskSet);
                                e3 = ecs_UpdateTags conn log3 arn [] tags;
                                log4 = log3 @ [ecs_UpdateTags_call arn [] tags]
                            in if tagmaps d ''tags'' = [] \<and>
                                  ErrorISOUnsupported (ISOUnsupportedSignature meta) (ecs_PartitionID conn) e3
                               then resourceTaskSetRead meta conn d1 log4
                               else if e3 \<noteq> None
                               then Return (AppendErrorf []
                                              ''ECS tagging failed adding tags after create for Task Set (%s): %s''
                                              [ArgS (ID d1), ArgE e3], d1, log4)
                               else resourceTaskSetRead meta conn d1 log4)
                         else resourceTaskSetRead meta conn d1 log3))))"

definition resourceTaskSetDelete ::
  "AWSClient \<Rightarrow> ECS \<Rightarrow> ResourceData \<Rightarrow> ecs_call list \<Rightarrow>
   (diag list \<times> ResourceData \<times> ecs_call list) outcome" where
  "resourceTaskSetDelete meta conn d log =
     (case TaskSetParseID (ID d) of
        Inl perr \<Rightarrow>
          Return (AppendErrorf [] ''deleting ECS Task Set (%s): %s'' [ArgS (ID d), ArgE (Some perr)], d, log)
      | Inr (taskSetId, service, cluster) \<Rightarrow>
          (let input = \<lparr>dlt_Cluster = cluster, dlt_Service = service, dlt_TaskSet = taskSetId,
                        dlt_Force = bools d ''force_delete''\<rparr>;
               e = DeleteTaskSetWithContext conn log input;
               log1 = log @ [DeleteTaskSet input]
           in if ErrCodeEquals e [ErrCodeTaskSetNotFoundException] then Return ([], d, log1)
              else if e \<noteq> None
              then Return (AppendErrorf [] ''deleting ECS Task Set (%s): %s'' [ArgS (ID d), ArgE e], d, log1)
              else
                (let e2 = waitTaskSetDeleted conn log1 taskSetId service cluster;
                     log2 = log1 @ [waitTaskSetDeleted_call taskSetId service cluster]
                 in if e2 \<noteq> None
                    then (if ErrCodeEquals e2 [ErrCodeTaskSetNotFoundException] then Return ([], d, log2)
                          else Return (AppendErrorf [] ''deleting ECS Task Set (%s): waiting for completion: %s''
                                         [ArgS (ID d), ArgE e2], d, log2))
                    else Return ([], d, log2))))"

section \<open>RAM resource share: delete\<close>

text \<open>
  \<open>WaitResourceShareOwnedBySelfDeleted\<close> is not among the sources: it is one entry of
  the log, and its error is the connection's answer.
\<close>

datatype ram_call =
    DeleteResourceShare string
  | WaitResourceShareOwnedBySelfDeleted_call string nat

record RAM =
  DeleteResourceShareWithContext :: "ram_call list \<Rightarrow> string \<Rightarrow> err option"
  WaitResourceShareOwnedBySelfDeleted :: "ram_call list \<Rightarrow> string \<Rightarrow> nat \<Rightarrow> err option"

definition ErrCodeUnknownResourceException :: string where
  "ErrCodeUnknownResourceException = ''UnknownResourceException''"

definition resourceResourceShareDelete ::
  "RAM \<Rightarrow> ResourceData \<Rightarrow> ram_call list \<Rightarrow> (diag list \<times> ResourceData \<times> ram_call list) outcome" where
  "resourceResourceShareDelete conn d log =
     (let e = DeleteResourceShareWithContext conn log (ID d);
          log1 = log @ [DeleteResourceShare (ID d)]
      in if ErrCodeEquals e [ErrCodeUnknownResourceException] then Return ([], d, log1)
         else if e \<noteq> None
         then Return (AppendErrorf [] ''deleting RAM Resource Share (%s): %s'' [ArgS (ID d), ArgE e], d, log1)
         else
           (let e2 = WaitResourceShareOwnedBySelfDeleted conn log1 (ID d) (timeouts d ''delete'');
                log2 = log1 @ [WaitResourceShareOwnedBySelfDeleted_call (ID d) (timeouts d ''delete'')]
            in if e2 \<noteq> None
               then Return (AppendErrorf [] ''waiting for RAM Resource Share (%s) delete: %s''
                              [ArgS (ID d), ArgE e2], d, log2)
               else Return ([], d, log2)))"

section \<open>SSM: updating tags\<close>






section \<open>Elastic Beanstalk: the solution stack data source\<close>

text \<open>\<open>solutionStacks[0]\<close>: an index out of range on the empty slice is a panic.\<close>

definition mostRecentSolutionStack :: "string option list \<Rightarrow> string option outcome" where
  "mostRecentSolutionStack solutionStacks =
     (case solutionStacks of [] \<Rightarrow> Panic | s # rest \<Rightarrow> Return s)"

text \<open>
  The loop over \<open>resp.SolutionStacks\<close>: \<open>*solutionStack\<close> of a nil pointer is a panic;
  a stack whose name matches is appended.
\<close>

fun filterSolutionStacks ::
  "(string \<Rightarrow> bool) \<Rightarrow> string option list \<Rightarrow> string option list \<Rightarrow> string option list outcome" where
  "filterSolutionStacks r [] filtered = Return filtered"
| "filterSolutionStacks r (None # rest) filtered = Panic"
| "filterSolutionStacks r (Some s # rest) filtered =
     filterSolutionStacks r rest (if r s then filtered @ [Some s] else filtered)"

text \<open>
  \<open>dataSourceSolutionStackRead\<close>. The regular-expression library is a parameter:
  \<open>compile\<close> gives the matcher of a pattern, or nothing for an invalid pattern, on which
  \<open>regexp.MustCompile\<close> panics. The response is \<open>resp.SolutionStacks\<close>, \<open>None\<close> for
  a nil response.
\<close>

definition dataSourceSolutionStackRead ::
  "(string \<Rightarrow> (string \<Rightarrow> bool) option) \<Rightarrow> (string option list option \<times> err option) \<Rightarrow>
   ResourceData \<Rightarrow> (diag list \<times> ResourceData) outcome" where
  "dataSourceSolutionStackRead compile response d =
     (case response of
        (resp, e) \<Rightarrow>
          if e \<noteq> None
          then Return (AppendErrorf [] ''reading Elastic Beanstalk Solution Stack: %s'' [ArgE e], d)
          else
            (case compile (strs d ''name_regex'') of
               None \<Rightarrow> Panic
             | Some r \<Rightarrow>
                 (case resp of
                    None \<Rightarrow> Panic
                  | Some stacks \<Rightarrow>
                      (case filterSolutionStacks r stacks [] of
                         Panic \<Rightarrow> Panic
                       | Return filteredSolutionStacks \<Rightarrow>
                           if length filteredSolutionStacks < 1
                           then Return (AppendErrorf []
                                  ''Your query returned no results. Please change your search criteria and try again.''
                                  [], d)
                           else if length filteredSolutionStacks = 1
                           then Return ([], Set_str (SetId d (StringValue (hd filteredSolutionStacks))) ''name''
                                              (StringValue (hd filteredSolutionStacks)))
                           else if bools d ''most_recent''
                           then (case mostRecentSolutionStack filteredSolutionStacks of
                                   Panic \<Rightarrow> Panic
                                 | Return solutionStack \<Rightarrow>
                                     Return ([], Set_str (SetId d (StringValue solutionStack)) ''name''
                                                   (StringValue solutionStack)))
                           else Return (AppendErrorf []
                                  ''Your query returned more than one result. Please try a more specific search criteria, or set `most_recent` attribute to true.''
                                  [], d)))))"

section \<open>What may be written remotely\<close>




section \<open>Concrete inputs\<close>

text \<open>
  The inputs at which the theorems below are instantiated: a client in a partition other
  than the default one with the default tag \<open>env = prod\<close>, and for each service a
  connection whose every call succeeds; an instance changes the answer of one call.
\<close>

definition meta_iso :: AWSClient where
  "meta_iso =
     \<lparr>Partition = ''aws-iso'',
      DefaultTagsConfig = [(''env'', ''prod'')],
      IgnoreTagsConfig = \<lparr>Keys = [], KeyPrefixes = []\<rparr>,
      ISOUnsupportedSignature = (\<lambda>p code message. p \<noteq> ''aws'' \<and> code = ''UnsupportedOperation''),
      pollInterval = 1,
      propagationTimeout = 2,
      taskSetCreateTimeout = 3\<rparr>"

definition unsupported :: err where
  "unsupported = AwsErr ''UnsupportedOperation'' ''tagging is not supported in this partition''"

definition repo_app :: Repository where
  "repo_app = \<lparr>RepositoryArn = Some ''arn:aws-iso:ecr:r1:1:repository/app'',
               RepositoryName = Some ''app'', RegistryId = Some ''1'',
               RepositoryUri = Some ''1.dkr.ecr.r1/app'',
               ImageTagMutability = Some ''MUTABLE''\<rparr>"

definition ecr_base :: ECR where
  "ecr_base =
     \<lparr>PartitionID = ''aws-iso'',
      CreateRepositoryWithContext = (\<lambda>l i. (Some repo_app, None)),
      DescribeRepositoriesWithContext = (\<lambda>l i. (Some [Some repo_app], None)),
      DeleteRepositoryWithContext = (\<lambda>l i. None),
      UpdateTags = (\<lambda>l a old new. None),
      ListTags = (\<lambda>l a. ([], None))\<rparr>"

definition d_app :: ResourceData where
  "d_app =
     \<lparr>ID = ''app'', IsNewResource = False,
      strs = (\<lambda>k. if k = ''name'' then ''app'' else if k = ''image_tag_mutability'' then ''MUTABLE'' else []),
      bools = (\<lambda>k. False),
      tagmaps = (\<lambda>k. []),
      timeouts = (\<lambda>k. 2)\<rparr>"

definition taskset_1 :: TaskSet where
  "taskset_1 =
     \<lparr>TaskSetArn = Some ''arn:aws-iso:ecs:r1:1:task-set/main/web/ecs-svc/1'',
      TaskSet_Id = Some ''ecs-svc/1'', LaunchType = None, PlatformVersion = None,
      ExternalId = None, Status = Some ''ACTIVE'', StabilityStatus = Some ''STEADY_STATE'',
      TaskDefinition = Some ''web:1'', TaskSet_Tags = []\<rparr>"

definition ecs_base :: ECS where
  "ecs_base =
     \<lparr>ecs_PartitionID = ''aws-iso'',
      CreateTaskSetWithContext = (\<lambda>l i. (Some \<lparr>out_TaskSet = Some taskset_1\<rparr>, None)),
      DescribeTaskSetsWithContext = (\<lambda>l i. (Some [Some taskset_1], None)),
      DeleteTaskSetWithContext = (\<lambda>l i. None),
      ecs_UpdateTags = (\<lambda>l a old new. None),
      waitTaskSetStable = (\<lambda>l t i s c. None),
      waitTaskSetDeleted = (\<lambda>l i s c. None)\<rparr>"

definition d_taskset :: ResourceData where
  "d_taskset =
     \<lparr>ID = ''ecs-svc/1,web,main'', IsNewResource = False,
      strs = (\<lambda>k. if k = ''cluster'' then ''main'' else if k = ''service'' then ''web''
                   else if k = ''task_definition'' then ''web:1'' else []),
      bools = (\<lambda>k. False),
      tagmaps = (\<lambda>k. []),
      timeouts = (\<lambda>k. 2)\<rparr>"

definition ram_base :: RAM where
  "ram_base =
     \<lparr>DeleteResourceShareWithContext = (\<lambda>l a. None),
      WaitResourceShareOwnedBySelfDeleted = (\<lambda>l a t. None)\<rparr>"

definition d_share :: ResourceData where
  "d_share =
     \<lparr>ID = ''arn:aws:ram:r1:1:resource-share/s1'', IsNewResource = False,
      strs = (\<lambda>k. []), bools = (\<lambda>k. False), tagmaps = (\<lambda>k. []), timeouts = (\<lambda>k. 2)\<rparr>"

definition input_web :: CreateTaskSetInput where
  "input_web =
     \<lparr>cts_Cluster = Some ''main'', cts_Service = Some ''web'', cts_TaskDefinition = Some ''web:1'',
      cts_ExternalId = None, cts_LaunchType = None, cts_PlatformVersion = None,
      cts_Tags = Some [(''env'', ''prod'')]\<rparr>"

definition ecr_no_tagging :: ECR where
  "ecr_no_tagging =
     ecr_base\<lparr>CreateRepositoryWithContext :=
                 (\<lambda>l i. if in_Tags i \<noteq> None then (None, Some unsupported) else (Some repo_app, None)),
               UpdateTags := (\<lambda>l a old new. Some unsupported)\<rparr>"

definition d_new_app :: ResourceData where
  "d_new_app = d_app\<lparr>ID := [], IsNewResource := True\<rparr>"

definition d_new_app_tagged :: ResourceData where
  "d_new_app_tagged =
     d_app\<lparr>ID := [], IsNewResource := True,
             tagmaps := (\<lambda>k. if k = ''tags'' then [(''team'', ''infra'')] else [])\<rparr>"

definition input_app :: "KeyValueTags option \<Rightarrow> CreateRepositoryInput" where
  "input_app tags =
     \<lparr>in_ImageTagMutability = Some ''MUTABLE'', in_RepositoryName = Some ''app'', in_Tags = tags\<rparr>"




section \<open>Theorems\<close>

subsection \<open>Task set identity\<close>


lemma Split_not_Nil: "Split s sep \<noteq> []"
  by (induction s) (auto split: list.splits)

lemma Split_no_sep: "sep \<notin> set s \<Longrightarrow> Split s sep = [s]"
  by (induction s) auto

lemma Split_append_sep:
  "sep \<notin> set a \<Longrightarrow> Split (a @ sep # rest) sep = a # Split rest sep"
  by (induction a) auto

text \<open>
  C2 (as amended). A composite identity formatted from three non-empty parts that contain
  no comma parses back to exactly those parts; and a string whose comma-separated field
  count is not three, or that has an empty field, is rejected with the
  unexpected-format error.
\<close>

theorem TaskSetParseID_roundtrip_and_reject:
  "(taskSetId \<noteq> [] \<and> service \<noteq> [] \<and> cluster \<noteq> [] \<and>
    CHR '','' \<notin> set taskSetId \<and> CHR '','' \<notin> set service \<and> CHR '','' \<notin> set cluster
    \<longrightarrow> TaskSetParseID (TaskSetFormatID taskSetId service cluster)
          = Inr (taskSetId, service, cluster))
   \<and>
   (length (Split ident (CHR '','')) \<noteq> 3 \<or> [] \<in> set (Split ident (CHR '',''))
    \<longrightarrow> TaskSetParseID ident
          = Inl (Errorf ''unexpected format of ID (%q), expected TASK_SET_ID,SERVICE,CLUSTER'' [ident]))"
proof (intro conjI impI)
  assume a: "taskSetId \<noteq> [] \<and> service \<noteq> [] \<and> cluster \<noteq> [] \<and>
    CHR '','' \<notin> set taskSetId \<and> CHR '','' \<notin> set service \<and> CHR '','' \<notin> set cluster"
  have "Split (TaskSetFormatID taskSetId service cluster) (CHR '','')
        = [taskSetId, service, cluster]"
    using a by (simp add: TaskSetFormatID_def Split_append_sep Split_no_sep)
  with a show "TaskSetParseID (TaskSetFormatID taskSetId service cluster)
          = Inr (taskSetId, service, cluster)"
    by (simp add: TaskSetParseID_def)
next
  assume b: "length (Split ident (CHR '','')) \<noteq> 3 \<or> [] \<in> set (Split ident (CHR '',''))"
  show "TaskSetParseID ident
          = Inl (Errorf ''unexpected format of ID (%q), expected TASK_SET_ID,SERVICE,CLUSTER'' [ident])"
  proof (cases "length (Split ident (CHR '','')) = 3")
    case False
    then show ?thesis by (simp add: TaskSetParseID_def Let_def)
  next
    case True
    then obtain x y z where xyz: "Split ident (CHR '','') = [x, y, z]"
      by (auto simp: length_Suc_conv numeral_3_eq_3)
    with b have "x = [] \<or> y = [] \<or> z = []" by auto
    with xyz show ?thesis by (auto simp: TaskSetParseID_def Let_def)
  qed
qed

theorem TaskSetParseID_roundtrip_and_reject_witness:
  "TaskSetParseID (TaskSetFormatID ''ecs-svc/1'' ''web'' ''main'') = Inr (''ecs-svc/1'', ''web'', ''main'')
   \<and> TaskSetParseID ''ecs-svc/1,,main''
       = Inl (Errorf ''unexpected format of ID (%q), expected TASK_SET_ID,SERVICE,CLUSTER'' [''ecs-svc/1,,main''])
   \<and> TaskSetParseID ''ecs-svc/1,web''
       = Inl (Errorf ''unexpected format of ID (%q), expected TASK_SET_ID,SERVICE,CLUSTER'' [''ecs-svc/1,web''])"
  using TaskSetParseID_roundtrip_and_reject [of "''ecs-svc/1''" "''web''" "''main''" "''ecs-svc/1,,main''"]
        TaskSetParseID_roundtrip_and_reject [of "''ecs-svc/1''" "''web''" "''main''" "''ecs-svc/1,web''"]
  by simp

theorem TaskSetParseID_roundtrip_counterexample:
  "''a,b'' \<noteq> [] \<and> ''web'' \<noteq> [] \<and> ''main'' \<noteq> [] \<and>
   TaskSetParseID (TaskSetFormatID ''a,b'' ''web'' ''main'')
     = Inl (Errorf ''unexpected format of ID (%q), expected TASK_SET_ID,SERVICE,CLUSTER'' [''a,b,web,main''])"
  by (simp add: TaskSetParseID_def TaskSetFormatID_def)

subsection \<open>The retry engine\<close>

declare RetryWhen_from.simps [simp del]

lemma RetryWhen_from_error_no_output:
  "RetryWhen_from interval timeout elapsed f retryable s = ((output, Some x), s') \<Longrightarrow> output = None"
proof (induction interval timeout elapsed f retryable s rule: RetryWhen_from.induct)
  case (1 interval timeout elapsed f retryable s)
  obtain out e s1 where f: "f s = ((out, e), s1)" by (metis prod.collapse)
  obtain retry e' where r: "retryable e = (retry, e')" by (metis prod.collapse)
  show ?case
  proof (cases "retry \<and> \<not> timeout < elapsed")
    case True
    with f r "1.prems" have
      "RetryWhen_from interval timeout (elapsed + max 1 interval) f retryable s1 = ((output, Some x), s')"
      by (subst (asm) RetryWhen_from.simps) simp
    with "1.IH" [OF f [symmetric] refl r [symmetric]] True show ?thesis by simp
  next
    case False
    with f r "1.prems" show ?thesis
      by (subst (asm) RetryWhen_from.simps) (auto split: if_splits)
  qed
qed

lemma RetryWhen_from_always_retryable:
  "(\<And>l. fst (retryable (snd (fst (f l))))) \<Longrightarrow>
   \<exists>e' s'. RetryWhen_from interval timeout elapsed f retryable s = ((None, Some (TimeoutError e')), s')"
proof (induction interval timeout elapsed f retryable s rule: RetryWhen_from.induct)
  case (1 interval timeout elapsed f retryable s)
  obtain out e s1 where f: "f s = ((out, e), s1)" by (metis prod.collapse)
  obtain retry e' where r: "retryable e = (retry, e')" by (metis prod.collapse)
  from "1.prems" [of s] f r have retry: retry by simp
  show ?case
  proof (cases "timeout < elapsed")
    case True
    with f r retry show ?thesis by (subst RetryWhen_from.simps) simp
  next
    case False
    from "1.IH" [OF f [symmetric] refl r [symmetric] retry False "1.prems"]
    obtain e'' s'' where
      "RetryWhen_from interval timeout (elapsed + max 1 interval) f retryable s1
         = ((None, Some (TimeoutError e'')), s'')"
      by blast
    with f r retry False show ?thesis by (subst RetryWhen_from.simps) simp
  qed
qed

lemma RetryWhen_from_first_poll:
  "f s = ((out, e), s') \<Longrightarrow> retryable e = (False, e') \<Longrightarrow>
   RetryWhen_from interval timeout elapsed f retryable s
     = (if e' \<noteq> None then ((None, e'), s') else ((out, None), s'))"
  by (subst RetryWhen_from.simps) simp


subsection \<open>ECR: the finder\<close>

lemma ErrCodeEquals_Some:
  "ErrCodeEquals e codes \<Longrightarrow> \<exists>x. e = Some x"
  by (cases e) (simp_all add: ErrCodeEquals_def)

text \<open>
  C1. \<open>FindRepositoryByName\<close> classifies the one describe call it makes. A not-found
  error code of the remote, no record (a nil output or an empty list), and a single
  record whose name differs from the requested name each give an error of the NotFound
  kind; a single record whose name is the requested name is returned; and more than one
  record gives the too-many-results error, which is not of the NotFound kind. In every
  case the log grows by exactly the one describe call. (A record is an entry that is not
  nil; the source's guard treats a list whose first entry is nil as an empty result.)
\<close>

theorem FindRepositoryByName_classifies:
  "(DescribeRepositoriesWithContext conn log [name] = (output, e) \<and>
      ErrCodeEquals e [ErrCodeRepositoryNotFoundException]
    \<longrightarrow> FindRepositoryByName conn name log
          = (Inl (NotFoundError e), log @ [DescribeRepositories [name]])
        \<and> NotFound (Some (NotFoundError e)))
   \<and>
   (DescribeRepositoriesWithContext conn log [name] = (output, None) \<and>
      (output = None \<or> output = Some [])
    \<longrightarrow> FindRepositoryByName conn name log
          = (Inl EmptyResultError, log @ [DescribeRepositories [name]])
        \<and> NotFound (Some EmptyResultError))
   \<and>
   (DescribeRepositoriesWithContext conn log [name] = (Some [Some r], None) \<and>
      StringValue (RepositoryName r) \<noteq> name
    \<longrightarrow> FindRepositoryByName conn name log
          = (Inl (NotFoundError None), log @ [DescribeRepositories [name]])
        \<and> NotFound (Some (NotFoundError None)))
   \<and>
   (DescribeRepositoriesWithContext conn log [name] = (Some [Some r], None) \<and>
      StringValue (RepositoryName r) = name
    \<longrightarrow> FindRepositoryByName conn name log = (Inr r, log @ [DescribeRepositories [name]]))
   \<and>
   (DescribeRepositoriesWithContext conn log [name] = (Some (Some r # r2 # rest), None)
    \<longrightarrow> FindRepositoryByName conn name log
          = (Inl (TooManyResultsError (length rest + 2)), log @ [DescribeRepositories [name]])
        \<and> \<not> NotFound (Some (TooManyResultsError (length rest + 2))))"
proof (intro conjI impI)
  assume a: "DescribeRepositoriesWithContext conn log [name] = (output, e) \<and>
      ErrCodeEquals e [ErrCodeRepositoryNotFoundException]"
  then show "FindRepositoryByName conn name log
          = (Inl (NotFoundError e), log @ [DescribeRepositories [name]])"
    by (simp add: FindRepositoryByName_def FindRepository_def)
next
  assume a: "DescribeRepositoriesWithContext conn log [name] = (output, None) \<and>
      (output = None \<or> output = Some [])"
  then show "FindRepositoryByName conn name log
          = (Inl EmptyResultError, log @ [DescribeRepositories [name]])"
    by (auto simp: FindRepositoryByName_def FindRepository_def ErrCodeEquals_def)
next
  assume a: "DescribeRepositoriesWithContext conn log [name] = (Some [Some r], None) \<and>
      StringValue (RepositoryName r) \<noteq> name"
  then show "FindRepositoryByName conn name log
          = (Inl (NotFoundError None), log @ [DescribeRepositories [name]])"
    by (simp add: FindRepositoryByName_def FindRepository_def ErrCodeEquals_def)
next
  assume a: "DescribeRepositoriesWithContext conn log [name] = (Some [Some r], None) \<and>
      StringValue (RepositoryName r) = name"
  then show "FindRepositoryByName conn name log = (Inr r, log @ [DescribeRepositories [name]])"
    by (simp add: FindRepositoryByName_def FindRepository_def ErrCodeEquals_def)
next
  assume a: "DescribeRepositoriesWithContext conn log [name] = (Some (Some r # r2 # rest), None)"
  then show "FindRepositoryByName conn name log
          = (Inl (TooManyResultsError (length rest + 2)), log @ [DescribeRepositories [name]])"
    by (simp add: FindRepositoryByName_def FindRepository_def ErrCodeEquals_def)
qed (simp_all add: NotFound_def)

theorem FindRepositoryByName_classifies_witness:
  "FindRepositoryByName
      (ecr_base\<lparr>DescribeRepositoriesWithContext :=
         (\<lambda>l i. (None, Some (AwsErr ''RepositoryNotFoundException'' ''no such repository'')))\<rparr>)
      ''app'' []
     = (Inl (NotFoundError (Some (AwsErr ''RepositoryNotFoundException'' ''no such repository''))),
        [DescribeRepositories [''app'']])
   \<and> FindRepositoryByName (ecr_base\<lparr>DescribeRepositoriesWithContext := (\<lambda>l i. (Some [], None))\<rparr>) ''app'' []
     = (Inl EmptyResultError, [DescribeRepositories [''app'']])
   \<and> FindRepositoryByName ecr_base ''ap'' []
     = (Inl (NotFoundError None), [DescribeRepositories [''ap'']])
   \<and> FindRepositoryByName ecr_base ''app'' []
     = (Inr repo_app, [DescribeRepositories [''app'']])
   \<and> FindRepositoryByName
        (ecr_base\<lparr>DescribeRepositoriesWithContext := (\<lambda>l i. (Some [Some repo_app, Some repo_app], None))\<rparr>)
        ''app'' []
     = (Inl (TooManyResultsError 2), [DescribeRepositories [''app'']])"
  using
    FindRepositoryByName_classifies
      [of "ecr_base\<lparr>DescribeRepositoriesWithContext :=
             (\<lambda>l i. (None, Some (AwsErr ''RepositoryNotFoundException'' ''no such repository'')))\<rparr>"
          "[]" "''app''" None "Some (AwsErr ''RepositoryNotFoundException'' ''no such repository'')"]
    FindRepositoryByName_classifies
      [of "ecr_base\<lparr>DescribeRepositoriesWithContext := (\<lambda>l i. (Some [], None))\<rparr>" "[]" "''app''" "Some []"]
    FindRepositoryByName_classifies [of ecr_base "[]" "''ap''" _ _ repo_app]
    FindRepositoryByName_classifies [of ecr_base "[]" "''app''" _ _ repo_app]
    FindRepositoryByName_classifies
      [of "ecr_base\<lparr>DescribeRepositoriesWithContext := (\<lambda>l i. (Some [Some repo_app, Some repo_app], None))\<rparr>"
          "[]" "''app''" _ _ repo_app "Some repo_app" "[]"]
  by (simp add: ecr_base_def repo_app_def ErrCodeEquals_def
        ErrCodeRepositoryNotFoundException_def StringValue_def)

subsection \<open>ECR: delete\<close>

lemma ErrCodeEquals_single:
  "ErrCodeEquals e [code] \<Longrightarrow> code' \<noteq> code \<Longrightarrow> \<not> ErrCodeEquals e [code']"
  by (auto simp: ErrCodeEquals_def split: option.splits)

text \<open>
  C7. When the remote's delete call fails with the repository-not-empty error code,
  \<open>resourceRepositoryDelete\<close> returns one error diagnostic whose message tells the user
  to consider \<open>force_delete\<close>; the log grows by the one delete call only, so the delete
  is not retried and the wait-until-deleted loop (which would describe the repository) is
  not entered.
\<close>

theorem resourceRepositoryDelete_not_empty:
  "ErrCodeEquals
     (DeleteRepositoryWithContext conn log
        \<lparr>del_Force = bools d ''force_delete'', del_RegistryId = strs d ''registry_id'',
         del_RepositoryName = ID d\<rparr>)
     [ErrCodeRepositoryNotEmptyException]
   \<Longrightarrow> resourceRepositoryDelete meta conn d log
       = Return ([Diag Error ''ECR Repository (%s) not empty, consider using force_delete: %s''
                    [ArgS (ID d),
                     ArgE (DeleteRepositoryWithContext conn log
                             \<lparr>del_Force = bools d ''force_delete'', del_RegistryId = strs d ''registry_id'',
                              del_RepositoryName = ID d\<rparr>)]],
                 d,
                 log @ [DeleteRepository
                          \<lparr>del_Force = bools d ''force_delete'', del_RegistryId = strs d ''registry_id'',
                           del_RepositoryName = ID d\<rparr>])"
proof -
  assume a: "ErrCodeEquals
     (DeleteRepositoryWithContext conn log
        \<lparr>del_Force = bools d ''force_delete'', del_RegistryId = strs d ''registry_id'',
         del_RepositoryName = ID d\<rparr>)
     [ErrCodeRepositoryNotEmptyException]"
  have b: "\<not> ErrCodeEquals
     (DeleteRepositoryWithContext conn log
        \<lparr>del_Force = bools d ''force_delete'', del_RegistryId = strs d ''registry_id'',
         del_RepositoryName = ID d\<rparr>)
     [ErrCodeRepositoryNotFoundException]"
    by (rule ErrCodeEquals_single [OF a])
       (simp add: ErrCodeRepositoryNotFoundException_def ErrCodeRepositoryNotEmptyException_def)
  show ?thesis
    using a b by (simp add: resourceRepositoryDelete_def Let_def AppendErrorf_def)
qed

theorem resourceRepositoryDelete_not_empty_witness:
  "resourceRepositoryDelete meta_iso
     (ecr_base\<lparr>DeleteRepositoryWithContext :=
        (\<lambda>l i. Some (AwsErr ''RepositoryNotEmptyException'' ''the repository contains images''))\<rparr>)
     d_app []
   = Return ([Diag Error ''ECR Repository (%s) not empty, consider using force_delete: %s''
                [ArgS ''app'',
                 ArgE (Some (AwsErr ''RepositoryNotEmptyException'' ''the repository contains images''))]],
             d_app,
             [DeleteRepository \<lparr>del_Force = False, del_RegistryId = [], del_RepositoryName = ''app''\<rparr>])"
  using resourceRepositoryDelete_not_empty
    [of "ecr_base\<lparr>DeleteRepositoryWithContext :=
           (\<lambda>l i. Some (AwsErr ''RepositoryNotEmptyException'' ''the repository contains images''))\<rparr>"
        "[]" d_app meta_iso]
  by (simp add: ecr_base_def d_app_def ErrCodeEquals_def ErrCodeRepositoryNotEmptyException_def)

subsection \<open>Delete and absence\<close>

lemma RetryUntilNotFound_first_poll:
  "f s = ((output, e), s') \<Longrightarrow> NotFound e \<Longrightarrow>
   RetryUntilNotFound interval timeout f s = ((output, None), s')"
  by (simp add: RetryUntilNotFound_def RetryWhen_def RetryWhen_from.simps)

text \<open>
  C6 (as amended). Delete is idempotent with respect to absence where the delete call
  reports it. For the ECR repository, the ECS task set and the RAM resource share: when
  the delete call fails with the service's not-found error code, Delete returns no
  diagnostics and the log holds the delete call only. For the task set, a delete-wait
  that fails with the not-found code gives no diagnostics either, and nothing is called
  after the wait. For the ECR repository, a delete-wait whose probe finds the repository
  absent ends the operation with no diagnostics after that one probe. For the RAM
  resource share, \<open>resourceResourceShareDelete\<close> does not look at the code of the
  wait's error: any error of the delete-wait, one with the not-found code too, is
  returned as the error diagnostic of the wait (absence is for the waiter to treat as
  success).
\<close>

theorem delete_absent_is_success:
  "(ErrCodeEquals
      (DeleteRepositoryWithContext ecr log_ecr
         \<lparr>del_Force = bools d ''force_delete'', del_RegistryId = strs d ''registry_id'',
          del_RepositoryName = ID d\<rparr>)
      [ErrCodeRepositoryNotFoundException]
    \<longrightarrow> resourceRepositoryDelete meta ecr d log_ecr
          = Return ([], d, log_ecr @ [DeleteRepository
                       \<lparr>del_Force = bools d ''force_delete'', del_RegistryId = strs d ''registry_id'',
                        del_RepositoryName = ID d\<rparr>]))
   \<and>
   (DeleteRepositoryWithContext ecr log_ecr
         \<lparr>del_Force = bools d ''force_delete'', del_RegistryId = strs d ''registry_id'',
          del_RepositoryName = ID d\<rparr> = None \<and>
    FindRepositoryByName ecr (ID d)
      (log_ecr @ [DeleteRepository
                    \<lparr>del_Force = bools d ''force_delete'', del_RegistryId = strs d ''registry_id'',
                     del_RepositoryName = ID d\<rparr>]) = (Inl x, log_ecr') \<and>
    NotFound (Some x)
    \<longrightarrow> resourceRepositoryDelete meta ecr d log_ecr = Return ([], d, log_ecr'))
   \<and>
   (TaskSetParseID (ID d) = Inr (taskSetId, service, cluster) \<and>
    ErrCodeEquals
      (DeleteTaskSetWithContext ecs log_ecs
         \<lparr>dlt_Cluster = cluster, dlt_Service = service, dlt_TaskSet = taskSetId,
          dlt_Force = bools d ''force_delete''\<rparr>)
      [ErrCodeTaskSetNotFoundException]
    \<longrightarrow> resourceTaskSetDelete meta ecs d log_ecs
          = Return ([], d, log_ecs @ [DeleteTaskSet
                       \<lparr>dlt_Cluster = cluster, dlt_Service = service, dlt_TaskSet = taskSetId,
                        dlt_Force = bools d ''force_delete''\<rparr>]))
   \<and>
   (TaskSetParseID (ID d) = Inr (taskSetId, service, cluster) \<and>
    DeleteTaskSetWithContext ecs log_ecs
         \<lparr>dlt_Cluster = cluster, dlt_Service = service, dlt_TaskSet = taskSetId,
          dlt_Force = bools d ''force_delete''\<rparr> = None \<and>
    ErrCodeEquals
      (waitTaskSetDeleted ecs
         (log_ecs @ [DeleteTaskSet
                       \<lparr>dlt_Cluster = cluster, dlt_Service = service, dlt_TaskSet = taskSetId,
                        dlt_Force = bools d ''force_delete''\<rparr>])
         taskSetId service cluster)
      [ErrCodeTaskSetNotFoundException]
    \<longrightarrow> resourceTaskSetDelete meta ecs d log_ecs
          = Return ([], d, log_ecs @ [DeleteTaskSet
                       \<lparr>dlt_Cluster = cluster, dlt_Service = service, dlt_TaskSet = taskSetId,
                        dlt_Force = bools d ''force_delete''\<rparr>,
                      waitTaskSetDeleted_call taskSetId service cluster]))
   \<and>
   (ErrCodeEquals (DeleteResourceShareWithContext ram log_ram (ID d)) [ErrCodeUnknownResourceException]
    \<longrightarrow> resourceResourceShareDelete ram d log_ram
          = Return ([], d, log_ram @ [DeleteResourceShare (ID d)]))
   \<and>
   (DeleteResourceShareWithContext ram log_ram (ID d) = None \<and>
    WaitResourceShareOwnedBySelfDeleted ram (log_ram @ [DeleteResourceShare (ID d)])
      (ID d) (timeouts d ''delete'') = Some y
    \<longrightarrow> resourceResourceShareDelete ram d log_ram
          = Return ([Diag Error ''waiting for RAM Resource Share (%s) delete: %s''
                       [ArgS (ID d), ArgE (Some y)]],
                    d,
                    log_ram @ [DeleteResourceShare (ID d),
                               WaitResourceShareOwnedBySelfDeleted_call (ID d) (timeouts d ''delete'')]))"
proof (intro conjI impI)
  assume "ErrCodeEquals
      (DeleteRepositoryWithContext ecr log_ecr
         \<lparr>del_Force = bools d ''force_delete'', del_RegistryId = strs d ''registry_id'',
          del_RepositoryName = ID d\<rparr>)
      [ErrCodeRepositoryNotFoundException]"
  then show "resourceRepositoryDelete meta ecr d log_ecr
          = Return ([], d, log_ecr @ [DeleteRepository
                       \<lparr>del_Force = bools d ''force_delete'', del_RegistryId = strs d ''registry_id'',
                        del_RepositoryName = ID d\<rparr>])"
    by (simp add: resourceRepositoryDelete_def Let_def)
next
  assume a: "DeleteRepositoryWithContext ecr log_ecr
         \<lparr>del_Force = bools d ''force_delete'', del_RegistryId = strs d ''registry_id'',
          del_RepositoryName = ID d\<rparr> = None \<and>
    FindRepositoryByName ecr (ID d)
      (log_ecr @ [DeleteRepository
                    \<lparr>del_Force = bools d ''force_delete'', del_RegistryId = strs d ''registry_id'',
                     del_RepositoryName = ID d\<rparr>]) = (Inl x, log_ecr') \<and>
    NotFound (Some x)"
  have w: "RetryUntilNotFound (pollInterval meta) (timeouts d ''delete'')
             (\<lambda>l. case FindRepositoryByName ecr (ID d) l of (r, l') \<Rightarrow> (as_pair r, l'))
             (log_ecr @ [DeleteRepository
                    \<lparr>del_Force = bools d ''force_delete'', del_RegistryId = strs d ''registry_id'',
                     del_RepositoryName = ID d\<rparr>])
           = ((None :: Repository option, None), log_ecr')"
    by (rule RetryUntilNotFound_first_poll [where e = "Some x"]) (use a in \<open>simp_all add: as_pair_def\<close>)
  show "resourceRepositoryDelete meta ecr d log_ecr = Return ([], d, log_ecr')"
    using a by (simp add: resourceRepositoryDelete_def Let_def ErrCodeEquals_def w)
next
  assume "TaskSetParseID (ID d) = Inr (taskSetId, service, cluster) \<and>
    ErrCodeEquals
      (DeleteTaskSetWithContext ecs log_ecs
         \<lparr>dlt_Cluster = cluster, dlt_Service = service, dlt_TaskSet = taskSetId,
          dlt_Force = bools d ''force_delete''\<rparr>)
      [ErrCodeTaskSetNotFoundException]"
  then show "resourceTaskSetDelete meta ecs d log_ecs
          = Return ([], d, log_ecs @ [DeleteTaskSet
                       \<lparr>dlt_Cluster = cluster, dlt_Service = service, dlt_TaskSet = taskSetId,
                        dlt_Force = bools d ''force_delete''\<rparr>])"
    by (simp add: resourceTaskSetDelete_def Let_def)
next
  assume a: "TaskSetParseID (ID d) = Inr (taskSetId, service, cluster) \<and>
    DeleteTaskSetWithContext ecs log_ecs
         \<lparr>dlt_Cluster = cluster, dlt_Service = service, dlt_TaskSet = taskSetId,
          dlt_Force = bools d ''force_delete''\<rparr> = None \<and>
    ErrCodeEquals
      (waitTaskSetDeleted ecs
         (log_ecs @ [DeleteTaskSet
                       \<lparr>dlt_Cluster = cluster, dlt_Service = service, dlt_TaskSet = taskSetId,
                        dlt_Force = bools d ''force_delete''\<rparr>])
         taskSetId service cluster)
      [ErrCodeTaskSetNotFoundException]"
  then obtain y where y: "waitTaskSetDeleted ecs
         (log_ecs @ [DeleteTaskSet
                       \<lparr>dlt_Cluster = cluster, dlt_Service = service, dlt_TaskSet = taskSetId,
                        dlt_Force = bools d ''force_delete''\<rparr>])
         taskSetId service cluster = Some y"
    using ErrCodeEquals_Some by blast
  show "resourceTaskSetDelete meta ecs d log_ecs
          = Return ([], d, log_ecs @ [DeleteTaskSet
                       \<lparr>dlt_Cluster = cluster, dlt_Service = service, dlt_TaskSet = taskSetId,
                        dlt_Force = bools d ''force_delete''\<rparr>,
                      waitTaskSetDeleted_call taskSetId service cluster])"
    using a y by (simp add: resourceTaskSetDelete_def Let_def ErrCodeEquals_def)
next
  assume "ErrCodeEquals (DeleteResourceShareWithContext ram log_ram (ID d)) [ErrCodeUnknownResourceException]"
  then show "resourceResourceShareDelete ram d log_ram
          = Return ([], d, log_ram @ [DeleteResourceShare (ID d)])"
    by (simp add: resourceResourceShareDelete_def Let_def)
next
  assume "DeleteResourceShareWithContext ram log_ram (ID d) = None \<and>
    WaitResourceShareOwnedBySelfDeleted ram (log_ram @ [DeleteResourceShare (ID d)])
      (ID d) (timeouts d ''delete'') = Some y"
  then show "resourceResourceShareDelete ram d log_ram
          = Return ([Diag Error ''waiting for RAM Resource Share (%s) delete: %s''
                       [ArgS (ID d), ArgE (Some y)]],
                    d,
                    log_ram @ [DeleteResourceShare (ID d),
                               WaitResourceShareOwnedBySelfDeleted_call (ID d) (timeouts d ''delete'')])"
    by (simp add: resourceResourceShareDelete_def Let_def ErrCodeEquals_def AppendErrorf_def)
qed

theorem delete_absent_is_success_witness:
  "resourceRepositoryDelete meta_iso
     (ecr_base\<lparr>DeleteRepositoryWithContext :=
        (\<lambda>l i. Some (AwsErr ''RepositoryNotFoundException'' ''no such repository''))\<rparr>) d_app []
     = Return ([], d_app,
               [DeleteRepository \<lparr>del_Force = False, del_RegistryId = [], del_RepositoryName = ''app''\<rparr>])
   \<and> resourceRepositoryDelete meta_iso
       (ecr_base\<lparr>DescribeRepositoriesWithContext :=
          (\<lambda>l i. (None, Some (AwsErr ''RepositoryNotFoundException'' ''no such repository'')))\<rparr>) d_app []
     = Return ([], d_app,
               [DeleteRepository \<lparr>del_Force = False, del_RegistryId = [], del_RepositoryName = ''app''\<rparr>,
                DescribeRepositories [''app'']])
   \<and> resourceTaskSetDelete meta_iso
       (ecs_base\<lparr>DeleteTaskSetWithContext :=
          (\<lambda>l i. Some (AwsErr ''TaskSetNotFoundException'' ''no such task set''))\<rparr>) d_taskset []
     = Return ([], d_taskset,
               [DeleteTaskSet \<lparr>dlt_Cluster = ''main'', dlt_Service = ''web'', dlt_TaskSet = ''ecs-svc/1'',
                               dlt_Force = False\<rparr>])
   \<and> resourceTaskSetDelete meta_iso
       (ecs_base\<lparr>waitTaskSetDeleted :=
          (\<lambda>l i s c. Some (AwsErr ''TaskSetNotFoundException'' ''no such task set''))\<rparr>) d_taskset []
     = Return ([], d_taskset,
               [DeleteTaskSet \<lparr>dlt_Cluster = ''main'', dlt_Service = ''web'', dlt_TaskSet = ''ecs-svc/1'',
                               dlt_Force = False\<rparr>,
                waitTaskSetDeleted_call ''ecs-svc/1'' ''web'' ''main''])
   \<and> resourceResourceShareDelete
       (ram_base\<lparr>DeleteResourceShareWithContext :=
          (\<lambda>l a. Some (AwsErr ''UnknownResourceException'' ''no such share''))\<rparr>) d_share []
     = Return ([], d_share, [DeleteResourceShare ''arn:aws:ram:r1:1:resource-share/s1''])
   \<and> resourceResourceShareDelete
       (ram_base\<lparr>WaitResourceShareOwnedBySelfDeleted :=
          (\<lambda>l a t. Some (TimeoutError (Some ErrFoundResource)))\<rparr>) d_share []
     = Return ([Diag Error ''waiting for RAM Resource Share (%s) delete: %s''
                  [ArgS ''arn:aws:ram:r1:1:resource-share/s1'',
                   ArgE (Some (TimeoutError (Some ErrFoundResource)))]],
               d_share,
               [DeleteResourceShare ''arn:aws:ram:r1:1:resource-share/s1'',
                WaitResourceShareOwnedBySelfDeleted_call ''arn:aws:ram:r1:1:resource-share/s1'' 2])"
proof -
  have p: "TaskSetParseID (ID d_taskset) = Inr (''ecs-svc/1'', ''web'', ''main'')"
    by (simp add: d_taskset_def TaskSetParseID_def)
  have f: "FindRepositoryByName
             (ecr_base\<lparr>DescribeRepositoriesWithContext :=
                (\<lambda>l i. (None, Some (AwsErr ''RepositoryNotFoundException'' ''no such repository'')))\<rparr>)
             (ID d_app)
             [DeleteRepository \<lparr>del_Force = False, del_RegistryId = [], del_RepositoryName = ''app''\<rparr>]
           = (Inl (NotFoundError (Some (AwsErr ''RepositoryNotFoundException'' ''no such repository''))),
              [DeleteRepository \<lparr>del_Force = False, del_RegistryId = [], del_RepositoryName = ''app''\<rparr>,
               DescribeRepositories [''app'']])"
    by (simp add: FindRepositoryByName_def FindRepository_def ecr_base_def d_app_def ErrCodeEquals_def
          ErrCodeRepositoryNotFoundException_def)
  show ?thesis
    using
      delete_absent_is_success
        [where ecr = "ecr_base\<lparr>DeleteRepositoryWithContext :=
                 (\<lambda>l i. Some (AwsErr ''RepositoryNotFoundException'' ''no such repository''))\<rparr>"
           and log_ecr = "[]" and d = d_app and meta = meta_iso]
      delete_absent_is_success
        [where ecr = "ecr_base\<lparr>DescribeRepositoriesWithContext :=
                 (\<lambda>l i. (None, Some (AwsErr ''RepositoryNotFoundException'' ''no such repository'')))\<rparr>"
           and log_ecr = "[]" and d = d_app and meta = meta_iso
           and x = "NotFoundError (Some (AwsErr ''RepositoryNotFoundException'' ''no such repository''))"
           and log_ecr' = "[DeleteRepository \<lparr>del_Force = False, del_RegistryId = [], del_RepositoryName = ''app''\<rparr>,
                            DescribeRepositories [''app'']]"]
      delete_absent_is_success
        [where ecs = "ecs_base\<lparr>DeleteTaskSetWithContext :=
                 (\<lambda>l i. Some (AwsErr ''TaskSetNotFoundException'' ''no such task set''))\<rparr>"
           and log_ecs = "[]" and d = d_taskset and meta = meta_iso
           and taskSetId = "''ecs-svc/1''" and service = "''web''" and cluster = "''main''"]
      delete_absent_is_success
        [where ecs = "ecs_base\<lparr>waitTaskSetDeleted :=
                 (\<lambda>l i s c. Some (AwsErr ''TaskSetNotFoundException'' ''no such task set''))\<rparr>"
           and log_ecs = "[]" and d = d_taskset and meta = meta_iso
           and taskSetId = "''ecs-svc/1''" and service = "''web''" and cluster = "''main''"]
      delete_absent_is_success
        [where ram = "ram_base\<lparr>DeleteResourceShareWithContext :=
                 (\<lambda>l a. Some (AwsErr ''UnknownResourceException'' ''no such share''))\<rparr>"
           and log_ram = "[]" and d = d_share]
      delete_absent_is_success
        [where ram = "ram_base\<lparr>WaitResourceShareOwnedBySelfDeleted :=
                 (\<lambda>l a t. Some (TimeoutError (Some ErrFoundResource)))\<rparr>"
           and log_ram = "[]" and d = d_share and y = "TimeoutError (Some ErrFoundResource)"]
      p f
    by (simp add: ecr_base_def ecs_base_def ram_base_def d_app_def d_taskset_def d_share_def
          ErrCodeEquals_def NotFound_def ErrCodeRepositoryNotFoundException_def
          ErrCodeTaskSetNotFoundException_def ErrCodeUnknownResourceException_def)
qed

text \<open>
  The claim as first stated fails at the RAM resource share: the delete call succeeds,
  the delete-wait fails with the service's not-found code, and Delete returns an error
  diagnostic.
\<close>

theorem delete_wait_absent_counterexample:
  "DeleteResourceShareWithContext
     (ram_base\<lparr>WaitResourceShareOwnedBySelfDeleted :=
        (\<lambda>l a t. Some (AwsErr ''UnknownResourceException'' ''no such share''))\<rparr>)
     [] (ID d_share) = None
   \<and> ErrCodeEquals
       (WaitResourceShareOwnedBySelfDeleted
          (ram_base\<lparr>WaitResourceShareOwnedBySelfDeleted :=
             (\<lambda>l a t. Some (AwsErr ''UnknownResourceException'' ''no such share''))\<rparr>)
          [DeleteResourceShare (ID d_share)] (ID d_share) (timeouts d_share ''delete''))
       [ErrCodeUnknownResourceException]
   \<and> resourceResourceShareDelete
       (ram_base\<lparr>WaitResourceShareOwnedBySelfDeleted :=
          (\<lambda>l a t. Some (AwsErr ''UnknownResourceException'' ''no such share''))\<rparr>) d_share []
     = Return ([Diag Error ''waiting for RAM Resource Share (%s) delete: %s''
                  [ArgS ''arn:aws:ram:r1:1:resource-share/s1'',
                   ArgE (Some (AwsErr ''UnknownResourceException'' ''no such share''))]],
               d_share,
               [DeleteResourceShare ''arn:aws:ram:r1:1:resource-share/s1'',
                WaitResourceShareOwnedBySelfDeleted_call ''arn:aws:ram:r1:1:resource-share/s1'' 2])"
  by (simp add: resourceResourceShareDelete_def Let_def ram_base_def d_share_def ErrCodeEquals_def
        ErrCodeUnknownResourceException_def AppendErrorf_def)

subsection \<open>Deadlines\<close>

text \<open>
  The engine is a total function: its recursion is bounded by the deadline. A probe whose
  every outcome is retryable makes it return the timed-out error, and the wait of
  \<open>resourceRepositoryDelete\<close> surfaces that error when the repository stays visible.
\<close>

lemma RetryUntilNotFound_always_found:
  assumes "\<And>l. \<exists>v l'. f l = ((Some v, None), l')"
  shows "\<exists>e s'. RetryUntilNotFound interval timeout f s = ((None, Some (TimeoutError e)), s')"
proof -
  let ?r = "\<lambda>e. if NotFound e then (False, None)
                 else if e \<noteq> None then (False, e)
                 else (True, Some ErrFoundResource)"
  have h: "\<And>l. fst (?r (snd (fst (f l))))"
  proof -
    fix l
    from assms [of l] obtain v l' where "f l = ((Some v, None), l')" by blast
    then show "fst (?r (snd (fst (f l))))"
      by (simp add: NotFound_def)
  qed
  show ?thesis
    using RetryWhen_from_always_retryable [where retryable = ?r and f = f and interval = interval
        and timeout = timeout and elapsed = 0 and s = s, OF h]
    by (simp add: RetryUntilNotFound_def RetryWhen_def)
qed

lemma resourceRepositoryDelete_wait_times_out:
  assumes del: "DeleteRepositoryWithContext conn log
                  \<lparr>del_Force = bools d ''force_delete'', del_RegistryId = strs d ''registry_id'',
                   del_RepositoryName = ID d\<rparr> = None"
    and found: "\<And>l. \<exists>r l'. FindRepositoryByName conn (ID d) l = (Inr r, l')"
  shows "\<exists>e log'. resourceRepositoryDelete meta conn d log
           = Return ([Diag Error ''waiting for ECR Repository (%s) delete: %s''
                        [ArgS (ID d), ArgE (Some (TimeoutError e))]], d, log')"
proof -
  let ?f = "\<lambda>l. case FindRepositoryByName conn (ID d) l of (r, l') \<Rightarrow> (as_pair r, l')"
  let ?log1 = "log @ [DeleteRepository
                 \<lparr>del_Force = bools d ''force_delete'', del_RegistryId = strs d ''registry_id'',
                  del_RepositoryName = ID d\<rparr>]"
  have h: "\<And>l. \<exists>v l'. ?f l = ((Some v, None), l')"
  proof -
    fix l
    from found [of l] obtain r l' where "FindRepositoryByName conn (ID d) l = (Inr r, l')" by blast
    then show "\<exists>v l'. ?f l = ((Some v, None), l')"
      by (simp add: as_pair_def)
  qed
  obtain e s' where
    w: "RetryUntilNotFound (pollInterval meta) (timeouts d ''delete'') ?f ?log1
        = ((None, Some (TimeoutError e)), s')"
    using RetryUntilNotFound_always_found [of ?f "pollInterval meta" "timeouts d ''delete''" ?log1, OF h]
    by blast
  show ?thesis
    using del w
    by (simp add: resourceRepositoryDelete_def Let_def ErrCodeEquals_def AppendErrorf_def)
qed

text \<open>
  C9, at the input where the code departs from it. When every attempt of the create call
  fails with an error the classifier of \<open>retryTaskSetCreate\<close> calls retryable, the engine
  stops at the deadline with the timed-out error; \<open>retryTaskSetCreate\<close> then finds no
  output and returns the plain error "empty output" in its place, so the timed-out error
  never reaches the caller.
\<close>

theorem retryTaskSetCreate_masks_timeout:
  "(\<forall>l. fst (taskSetCreateRetryable (snd (CreateTaskSetWithContext conn l input))))
   \<longrightarrow> (\<exists>e log'.
          RetryWhen (pollInterval meta) (propagationTimeout meta + taskSetCreateTimeout meta)
            (\<lambda>l. (CreateTaskSetWithContext conn l input, l @ [CreateTaskSet input]))
            taskSetCreateRetryable log
            = ((None, Some (TimeoutError e)), log')
        \<and> retryTaskSetCreate meta conn input log
            = ((None, Some (Errorf ''error creating ECS TaskSet: empty output'' [])), log'))"
proof
  assume a: "\<forall>l. fst (taskSetCreateRetryable (snd (CreateTaskSetWithContext conn l input)))"
  let ?f = "\<lambda>l. (CreateTaskSetWithContext conn l input, l @ [CreateTaskSet input])"
  have h: "\<And>l. fst (taskSetCreateRetryable (snd (fst (?f l))))"
    using a by simp
  from RetryWhen_from_always_retryable [where retryable = taskSetCreateRetryable and f = ?f
      and interval = "pollInterval meta"
      and timeout = "propagationTimeout meta + taskSetCreateTimeout meta"
      and elapsed = 0 and s = log, OF h]
  obtain e log' where
    r: "RetryWhen (pollInterval meta) (propagationTimeout meta + taskSetCreateTimeout meta)
          (\<lambda>l. (CreateTaskSetWithContext conn l input, l @ [CreateTaskSet input]))
          taskSetCreateRetryable log
        = ((None, Some (TimeoutError e)), log')"
    unfolding RetryWhen_def by blast
  then have "retryTaskSetCreate meta conn input log
            = ((None, Some (Errorf ''error creating ECS TaskSet: empty output'' [])), log')"
    by (simp add: retryTaskSetCreate_def)
  with r show "\<exists>e log'.
          RetryWhen (pollInterval meta) (propagationTimeout meta + taskSetCreateTimeout meta)
            (\<lambda>l. (CreateTaskSetWithContext conn l input, l @ [CreateTaskSet input]))
            taskSetCreateRetryable log
            = ((None, Some (TimeoutError e)), log')
        \<and> retryTaskSetCreate meta conn input log
            = ((None, Some (Errorf ''error creating ECS TaskSet: empty output'' [])), log')"
    by blast
qed

theorem retryTaskSetCreate_masks_timeout_witness:
  "RetryWhen (pollInterval meta_iso) (propagationTimeout meta_iso + taskSetCreateTimeout meta_iso)
     (\<lambda>l. (CreateTaskSetWithContext
               (ecs_base\<lparr>CreateTaskSetWithContext :=
                  (\<lambda>l i. (None, Some (AwsErr ''ClusterNotFoundException'' ''cluster not found'')))\<rparr>)
               l input_web,
            l @ [CreateTaskSet input_web]))
     taskSetCreateRetryable []
     = ((None, Some (TimeoutError (Some (AwsErr ''ClusterNotFoundException'' ''cluster not found'')))),
        replicate 7 (CreateTaskSet input_web))
   \<and> retryTaskSetCreate meta_iso
       (ecs_base\<lparr>CreateTaskSetWithContext :=
          (\<lambda>l i. (None, Some (AwsErr ''ClusterNotFoundException'' ''cluster not found'')))\<rparr>)
       input_web []
     = ((None, Some (Errorf ''error creating ECS TaskSet: empty output'' [])),
        replicate 7 (CreateTaskSet input_web))"
proof -
  have c: "taskSetCreateRetryable (Some (AwsErr ''ClusterNotFoundException'' ''cluster not found''))
           = (True, Some (AwsErr ''ClusterNotFoundException'' ''cluster not found''))"
    by (simp add: taskSetCreateRetryable_def ErrCodeEquals_def ErrCodeClusterNotFoundException_def)
  have w: "RetryWhen (pollInterval meta_iso) (propagationTimeout meta_iso + taskSetCreateTimeout meta_iso)
     (\<lambda>l. (CreateTaskSetWithContext
               (ecs_base\<lparr>CreateTaskSetWithContext :=
                  (\<lambda>l i. (None, Some (AwsErr ''ClusterNotFoundException'' ''cluster not found'')))\<rparr>)
               l input_web,
            l @ [CreateTaskSet input_web]))
     taskSetCreateRetryable []
     = ((None, Some (TimeoutError (Some (AwsErr ''ClusterNotFoundException'' ''cluster not found'')))),
        replicate 7 (CreateTaskSet input_web))"
    by (simp add: RetryWhen_def RetryWhen_from.simps meta_iso_def ecs_base_def c numeral_eq_Suc)
  show ?thesis
    using retryTaskSetCreate_masks_timeout
      [of "ecs_base\<lparr>CreateTaskSetWithContext :=
             (\<lambda>l i. (None, Some (AwsErr ''ClusterNotFoundException'' ''cluster not found'')))\<rparr>"
          input_web meta_iso "[]"] w c
    by (simp add: ecs_base_def)
qed

subsection \<open>Read and absence\<close>

text \<open>
  What holds of the claim. A read that finds a resource absent which is not new clears
  the identity and returns no diagnostics, for the ECR repository and for the task set;
  and the read of a new task set that is absent returns an error diagnostic.
\<close>

lemma resourceRepositoryRead_absent_drops_state:
  assumes "\<not> IsNewResource d"
    and "FindRepositoryByName conn (ID d) log = (Inl x, log')"
    and "NotFound (Some x)"
  shows "resourceRepositoryRead meta conn d log = Return ([], SetId d [], log')"
proof -
  let ?f = "\<lambda>l. case FindRepositoryByName conn (ID d) l of (r, l') \<Rightarrow> (as_pair r, l')"
  have "RetryWhenNewResourceNotFound (pollInterval meta) (propagationTimeout meta) ?f
          (IsNewResource d) log = ((None, Some x), log')"
    using assms
    by (simp add: RetryWhenNewResourceNotFound_def RetryWhen_def as_pair_def
          RetryWhen_from_first_poll [where out = None and e = "Some x" and e' = "Some x" and s' = log'])
  with assms show ?thesis
    by (simp add: resourceRepositoryRead_def)
qed

lemma resourceTaskSetRead_absent_drops_state:
  assumes "\<not> IsNewResource d"
    and "TaskSetParseID (ID d) = Inr (taskSetId, service, cluster)"
    and "input = \<lparr>dts_Cluster = cluster, dts_Include = Some [TaskSetFieldTags],
                   dts_Service = service, dts_TaskSets = [taskSetId]\<rparr>"
    and "ErrCodeEquals (snd (DescribeTaskSetsWithContext conn log input))
           [ErrCodeClusterNotFoundException, ErrCodeServiceNotFoundException,
            ErrCodeTaskSetNotFoundException]"
  shows "resourceTaskSetRead meta conn d log = Return ([], SetId d [], log @ [DescribeTaskSets input])"
  using assms by (simp add: resourceTaskSetRead_def Let_def)

lemma resourceTaskSetRead_new_empty_is_error:
  assumes "IsNewResource d"
    and "TaskSetParseID (ID d) = Inr (taskSetId, service, cluster)"
    and "input = \<lparr>dts_Cluster = cluster, dts_Include = Some [TaskSetFieldTags],
                   dts_Service = service, dts_TaskSets = [taskSetId]\<rparr>"
    and "DescribeTaskSetsWithContext conn log input = (out, None)"
    and "out = None \<or> out = Some []"
  shows "resourceTaskSetRead meta conn d log
         = Return ([Diag Error ''reading ECS Task Set (%s): empty output after creation'' [ArgS (ID d)]],
                   d, log @ [DescribeTaskSets input])"
  using assms by (auto simp: resourceTaskSetRead_def Let_def ErrorISOUnsupported_def AppendErrorf_def)

lemma resourceTaskSetRead_new_not_found_is_error:
  assumes "IsNewResource d"
    and "TaskSetParseID (ID d) = Inr (taskSetId, service, cluster)"
    and "input = \<lparr>dts_Cluster = cluster, dts_Include = Some [TaskSetFieldTags],
                   dts_Service = service, dts_TaskSets = [taskSetId]\<rparr>"
    and "DescribeTaskSetsWithContext conn log input = (out, Some x)"
    and "\<not> ErrorISOUnsupported (ISOUnsupportedSignature meta) (ecs_PartitionID conn) (Some x)"
  shows "resourceTaskSetRead meta conn d log
         = Return ([Diag Error ''reading ECS Task Set (%s): %s'' [ArgS (ID d), ArgE (Some x)]],
                   d, log @ [DescribeTaskSets input])"
  using assms by (simp add: resourceTaskSetRead_def Let_def AppendErrorf_def)

text \<open>
  C5, at the input where the code departs from it. The read of a new ECR repository that
  the finder reports absent at every poll: the engine gives up at the deadline with an
  error and no repository; \<open>resourceRepositoryRead\<close> has no test of that error for a new
  resource and goes on to use the repository it does not have. The operation panics; no
  error diagnostic is returned.
\<close>

theorem resourceRepositoryRead_new_absent_panics:
  "IsNewResource d \<and>
   (\<forall>l. \<exists>x l'. FindRepositoryByName conn (ID d) l = (Inl x, l') \<and> NotFound (Some x))
   \<longrightarrow> resourceRepositoryRead meta conn d log = Panic"
proof
  assume a: "IsNewResource d \<and>
   (\<forall>l. \<exists>x l'. FindRepositoryByName conn (ID d) l = (Inl x, l') \<and> NotFound (Some x))"
  let ?f = "\<lambda>l. case FindRepositoryByName conn (ID d) l of (r, l') \<Rightarrow> (as_pair r, l')"
  let ?r = "\<lambda>e. if IsNewResource d \<and> NotFound e then (True, e) else (False, e)"
  have h: "\<And>l. fst (?r (snd (fst (?f l))))"
  proof -
    fix l
    from a obtain x l' where "FindRepositoryByName conn (ID d) l = (Inl x, l')" "NotFound (Some x)"
      by blast
    with a show "fst (?r (snd (fst (?f l))))"
      by (simp add: as_pair_def)
  qed
  obtain e s' where
    "RetryWhenNewResourceNotFound (pollInterval meta) (propagationTimeout meta) ?f
       (IsNewResource d) log = ((None, Some (TimeoutError e)), s')"
    using RetryWhen_from_always_retryable [where retryable = ?r and f = ?f
        and interval = "pollInterval meta" and timeout = "propagationTimeout meta"
        and elapsed = 0 and s = log, OF h]
    by (auto simp: RetryWhenNewResourceNotFound_def RetryWhen_def)
  with a show "resourceRepositoryRead meta conn d log = Panic"
    by (simp add: resourceRepositoryRead_def)
qed

theorem resourceRepositoryRead_new_absent_panics_witness:
  "resourceRepositoryRead meta_iso
     (ecr_base\<lparr>DescribeRepositoriesWithContext :=
        (\<lambda>l i. (None, Some (AwsErr ''RepositoryNotFoundException'' ''no such repository'')))\<rparr>)
     (d_app\<lparr>IsNewResource := True\<rparr>) []
   = Panic"
proof -
  have "\<forall>l. \<exists>x l'.
          FindRepositoryByName
            (ecr_base\<lparr>DescribeRepositoriesWithContext :=
               (\<lambda>l i. (None, Some (AwsErr ''RepositoryNotFoundException'' ''no such repository'')))\<rparr>)
            (ID (d_app\<lparr>IsNewResource := True\<rparr>)) l = (Inl x, l') \<and> NotFound (Some x)"
    by (simp add: FindRepositoryByName_def FindRepository_def ecr_base_def ErrCodeEquals_def
          ErrCodeRepositoryNotFoundException_def NotFound_def)
  then show ?thesis
    using resourceRepositoryRead_new_absent_panics
      [of "d_app\<lparr>IsNewResource := True\<rparr>"
          "ecr_base\<lparr>DescribeRepositoriesWithContext :=
             (\<lambda>l i. (None, Some (AwsErr ''RepositoryNotFoundException'' ''no such repository'')))\<rparr>"
          meta_iso "[]"]
    by simp
qed

subsection \<open>Create where tag-on-create is unsupported\<close>

text \<open>
  What holds of the claim: the ECR repository. When the create call with tags fails with
  the unsupported signature in a partition other than the default one, the same request
  is sent once more without tags, and the tags go to the deferred tagging call after the
  create.
\<close>

lemma resourceRepositoryCreate_unsupported_retried:
  assumes "tags = MergeTags (DefaultTagsConfig meta) (tagmaps d ''tags'')"
    and "tags \<noteq> []"
    and "Partition meta \<noteq> AwsPartitionID"
    and "input1 = \<lparr>in_ImageTagMutability = Some (strs d ''image_tag_mutability''),
                    in_RepositoryName = Some (strs d ''name''),
                    in_Tags = Some (IgnoreAWS tags)\<rparr>"
    and "ErrorISOUnsupported (ISOUnsupportedSignature meta) (PartitionID conn)
           (snd (CreateRepositoryWithContext conn log input1))"
    and "CreateRepositoryWithContext conn (log @ [CreateRepository input1]) (input1\<lparr>in_Tags := None\<rparr>)
           = (Some repository, None)"
    and "UpdateTags conn (log @ [CreateRepository input1, CreateRepository (input1\<lparr>in_Tags := None\<rparr>)])
           (StringValue (RepositoryArn repository)) [] tags = None"
  shows "resourceRepositoryCreate meta conn d log
         = resourceRepositoryRead meta conn (SetId d (StringValue (RepositoryName repository)))
             (log @ [CreateRepository input1, CreateRepository (input1\<lparr>in_Tags := None\<rparr>),
                     UpdateTags_call (StringValue (RepositoryArn repository)) [] tags])"
  using assms by (simp add: resourceRepositoryCreate_def Let_def ErrorISOUnsupported_def)

text \<open>
  The error \<open>retryTaskSetCreate\<close> returns is nil or the plain "empty output" error, so it
  never carries the unsupported signature.
\<close>

lemma retryTaskSetCreate_error:
  "snd (fst (retryTaskSetCreate meta conn input log)) = None \<or>
   snd (fst (retryTaskSetCreate meta conn input log))
     = Some (Errorf ''error creating ECS TaskSet: empty output'' [])"
proof -
  let ?f = "\<lambda>l. (CreateTaskSetWithContext conn l input, l @ [CreateTaskSet input])"
  obtain out e log' where
    r: "RetryWhen (pollInterval meta) (propagationTimeout meta + taskSetCreateTimeout meta)
          ?f taskSetCreateRetryable log = ((out, e), log')"
    by (cases "RetryWhen (pollInterval meta) (propagationTimeout meta + taskSetCreateTimeout meta)
                 ?f taskSetCreateRetryable log") auto
  show ?thesis
  proof (cases e)
    case None
    with r show ?thesis by (simp add: retryTaskSetCreate_def split: option.splits)
  next
    case (Some x)
    with r have "out = None"
      using RetryWhen_from_error_no_output [of "pollInterval meta"
          "propagationTimeout meta + taskSetCreateTimeout meta" 0 ?f taskSetCreateRetryable log out x log']
      by (simp add: RetryWhen_def)
    with r show ?thesis by (simp add: retryTaskSetCreate_def)
  qed
qed

lemma retryTaskSetCreate_never_unsupported:
  "\<not> ErrorISOUnsupported signature pid (snd (fst (retryTaskSetCreate meta conn input log)))"
  using retryTaskSetCreate_error [of meta conn input log]
  by (auto simp: ErrorISOUnsupported_def)

text \<open>
  C3, at the input where the code departs from it: the task set. The create call that
  embeds the tags fails with an error of the unsupported signature (one that the
  classifier does not retry). \<open>retryTaskSetCreate\<close> returns the plain "empty output"
  error in its place, the test for the unsupported signature fails on it, and
  \<open>resourceTaskSetCreate\<close> returns an error diagnostic after that one create call: the
  call is not repeated without tags.
\<close>

theorem resourceTaskSetCreate_unsupported_not_retried:
  "tags = MergeTags (DefaultTagsConfig meta) (tagmaps d ''tags'') \<and> tags \<noteq> [] \<and>
   input1 = \<lparr>cts_Cluster = Some (strs d ''cluster''), cts_Service = Some (strs d ''service''),
              cts_TaskDefinition = Some (strs d ''task_definition''),
              cts_ExternalId = GetOk_str d ''external_id'',
              cts_LaunchType = GetOk_str d ''launch_type'',
              cts_PlatformVersion = GetOk_str d ''platform_version'',
              cts_Tags = Some (IgnoreAWS tags)\<rparr> \<and>
   CreateTaskSetWithContext conn log input1 = (out, Some x) \<and>
   ErrorISOUnsupported (ISOUnsupportedSignature meta) (ecs_PartitionID conn) (Some x) \<and>
   \<not> fst (taskSetCreateRetryable (Some x))
   \<longrightarrow> resourceTaskSetCreate meta conn d log
       = Return ([Diag Error ''creating ECS TaskSet: %s''
                    [ArgE (Some (Errorf ''error creating ECS TaskSet: empty output'' []))]],
                 d, log @ [CreateTaskSet input1])"
proof
  assume a: "tags = MergeTags (DefaultTagsConfig meta) (tagmaps d ''tags'') \<and> tags \<noteq> [] \<and>
   input1 = \<lparr>cts_Cluster = Some (strs d ''cluster''), cts_Service = Some (strs d ''service''),
              cts_TaskDefinition = Some (strs d ''task_definition''),
              cts_ExternalId = GetOk_str d ''external_id'',
              cts_LaunchType = GetOk_str d ''launch_type'',
              cts_PlatformVersion = GetOk_str d ''platform_version'',
              cts_Tags = Some (IgnoreAWS tags)\<rparr> \<and>
   CreateTaskSetWithContext conn log input1 = (out, Some x) \<and>
   ErrorISOUnsupported (ISOUnsupportedSignature meta) (ecs_PartitionID conn) (Some x) \<and>
   \<not> fst (taskSetCreateRetryable (Some x))"
  then have t: "tags = MergeTags (DefaultTagsConfig meta) (tagmaps d ''tags'')"
    and ne: "tags \<noteq> []"
    and i: "input1 = \<lparr>cts_Cluster = Some (strs d ''cluster''), cts_Service = Some (strs d ''service''),
              cts_TaskDefinition = Some (strs d ''task_definition''),
              cts_ExternalId = GetOk_str d ''external_id'',
              cts_LaunchType = GetOk_str d ''launch_type'',
              cts_PlatformVersion = GetOk_str d ''platform_version'',
              cts_Tags = Some (IgnoreAWS tags)\<rparr>"
    and f: "CreateTaskSetWithContext conn log input1 = (out, Some x)"
    and nr: "\<not> fst (taskSetCreateRetryable (Some x))"
    by blast+
  let ?f = "\<lambda>l. (CreateTaskSetWithContext conn l input1, l @ [CreateTaskSet input1])"
  have c: "taskSetCreateRetryable (Some x) = (False, Some x)"
    using nr by (simp add: taskSetCreateRetryable_def split: if_splits)
  have fs: "?f log = ((out, Some x), log @ [CreateTaskSet input1])"
    using f by simp
  have "RetryWhen (pollInterval meta) (propagationTimeout meta + taskSetCreateTimeout meta)
          ?f taskSetCreateRetryable log = ((None, Some x), log @ [CreateTaskSet input1])"
    unfolding RetryWhen_def
    by (subst RetryWhen_from_first_poll
          [where f = ?f and s = log and retryable = taskSetCreateRetryable, OF fs c]) simp
  then have r: "retryTaskSetCreate meta conn input1 log
          = ((None, Some (Errorf ''error creating ECS TaskSet: empty output'' [])),
             log @ [CreateTaskSet input1])"
    by (simp add: retryTaskSetCreate_def)
  have in1: "(if MergeTags (DefaultTagsConfig meta) (tagmaps d ''tags'') \<noteq> []
              then \<lparr>cts_Cluster = Some (strs d ''cluster''), cts_Service = Some (strs d ''service''),
                    cts_TaskDefinition = Some (strs d ''task_definition''),
                    cts_ExternalId = GetOk_str d ''external_id'',
                    cts_LaunchType = GetOk_str d ''launch_type'',
                    cts_PlatformVersion = GetOk_str d ''platform_version'',
                    cts_Tags = None\<rparr>
                   \<lparr>cts_Tags := Some (IgnoreAWS (MergeTags (DefaultTagsConfig meta) (tagmaps d ''tags'')))\<rparr>
              else \<lparr>cts_Cluster = Some (strs d ''cluster''), cts_Service = Some (strs d ''service''),
                    cts_TaskDefinition = Some (strs d ''task_definition''),
                    cts_ExternalId = GetOk_str d ''external_id'',
                    cts_LaunchType = GetOk_str d ''launch_type'',
                    cts_PlatformVersion = GetOk_str d ''platform_version'',
                    cts_Tags = None\<rparr>) = input1"
    using ne unfolding i t by simp
  have tg: "cts_Tags input1 \<noteq> None" unfolding i by simp
  show "resourceTaskSetCreate meta conn d log
       = Return ([Diag Error ''creating ECS TaskSet: %s''
                    [ArgE (Some (Errorf ''error creating ECS TaskSet: empty output'' []))]],
                 d, log @ [CreateTaskSet input1])"
    unfolding resourceTaskSetCreate_def Let_def in1
    using r tg by (simp add: ErrorISOUnsupported_def AppendErrorf_def)
qed

theorem resourceTaskSetCreate_unsupported_not_retried_witness:
  "resourceTaskSetCreate meta_iso
     (ecs_base\<lparr>CreateTaskSetWithContext :=
        (\<lambda>l i. if cts_Tags i \<noteq> None then (None, Some unsupported)
               else (Some \<lparr>out_TaskSet = Some taskset_1\<rparr>, None))\<rparr>)
     (d_taskset\<lparr>ID := [], IsNewResource := True\<rparr>) []
   = Return ([Diag Error ''creating ECS TaskSet: %s''
                [ArgE (Some (Errorf ''error creating ECS TaskSet: empty output'' []))]],
             d_taskset\<lparr>ID := [], IsNewResource := True\<rparr>,
             [CreateTaskSet input_web])"
  using resourceTaskSetCreate_unsupported_not_retried
    [of "[(''env'', ''prod'')]" meta_iso "d_taskset\<lparr>ID := [], IsNewResource := True\<rparr>" input_web
        "ecs_base\<lparr>CreateTaskSetWithContext :=
           (\<lambda>l i. if cts_Tags i \<noteq> None then (None, Some unsupported)
                  else (Some \<lparr>out_TaskSet = Some taskset_1\<rparr>, None))\<rparr>"
        "[]" None unsupported]
  by (simp add: meta_iso_def d_taskset_def input_web_def ecs_base_def unsupported_def MergeTags_def
        IgnoreAWS_def AwsTagKeyPrefix_def GetOk_str_def ErrorISOUnsupported_def
        taskSetCreateRetryable_def ErrCodeEquals_def ErrMessageContains_def
        ErrCodeClusterNotFoundException_def ErrCodeServiceNotFoundException_def
        ErrCodeTaskSetNotFoundException_def ErrCodeInvalidParameterException_def)

subsection \<open>Deferred tagging that is unsupported\<close>

lemma resourceRepositoryCreate_deferred_default_only:
  assumes "tagmaps d ''tags'' = []"
    and "tags = MergeTags (DefaultTagsConfig meta) (tagmaps d ''tags'')"
    and "input1 = \<lparr>in_ImageTagMutability = Some (strs d ''image_tag_mutability''),
                    in_RepositoryName = Some (strs d ''name''),
                    in_Tags = Some (IgnoreAWS tags)\<rparr>"
    and "log3 = log @ [CreateRepository input1, CreateRepository (input1\<lparr>in_Tags := None\<rparr>),
                       UpdateTags_call (StringValue (RepositoryArn repository)) [] tags]"
    and "e3 = UpdateTags conn (log @ [CreateRepository input1, CreateRepository (input1\<lparr>in_Tags := None\<rparr>)])
                (StringValue (RepositoryArn repository)) [] tags"
    and "tags \<noteq> []"
    and "Partition meta \<noteq> AwsPartitionID"
    and "ErrorISOUnsupported (ISOUnsupportedSignature meta) (PartitionID conn)
           (snd (CreateRepositoryWithContext conn log input1))"
    and "CreateRepositoryWithContext conn (log @ [CreateRepository input1]) (input1\<lparr>in_Tags := None\<rparr>)
           = (Some repository, None)"
    and "ErrorISOUnsupported (ISOUnsupportedSignature meta) (PartitionID conn) e3"
    and "e3 \<noteq> None"
  shows "resourceRepositoryCreate meta conn d log
         = resourceRepositoryRead meta conn (SetId d (StringValue (RepositoryName repository))) log3"
  using assms by (simp add: resourceRepositoryCreate_def Let_def)

lemma resourceRepositoryCreate_deferred_explicit:
  assumes "tagmaps d ''tags'' \<noteq> []"
    and "tags = MergeTags (DefaultTagsConfig meta) (tagmaps d ''tags'')"
    and "input1 = \<lparr>in_ImageTagMutability = Some (strs d ''image_tag_mutability''),
                    in_RepositoryName = Some (strs d ''name''),
                    in_Tags = Some (IgnoreAWS tags)\<rparr>"
    and "log3 = log @ [CreateRepository input1, CreateRepository (input1\<lparr>in_Tags := None\<rparr>),
                       UpdateTags_call (StringValue (RepositoryArn repository)) [] tags]"
    and "e3 = UpdateTags conn (log @ [CreateRepository input1, CreateRepository (input1\<lparr>in_Tags := None\<rparr>)])
                (StringValue (RepositoryArn repository)) [] tags"
    and "tags \<noteq> []"
    and "Partition meta \<noteq> AwsPartitionID"
    and "ErrorISOUnsupported (ISOUnsupportedSignature meta) (PartitionID conn)
           (snd (CreateRepositoryWithContext conn log input1))"
    and "CreateRepositoryWithContext conn (log @ [CreateRepository input1]) (input1\<lparr>in_Tags := None\<rparr>)
           = (Some repository, None)"
    and "ErrorISOUnsupported (ISOUnsupportedSignature meta) (PartitionID conn) e3"
    and "e3 \<noteq> None"
  shows "resourceRepositoryCreate meta conn d log
         = Return ([Diag Error ''adding tags after create for ECR Repository (%s): %s''
                      [ArgS (StringValue (RepositoryName repository)), ArgE e3]],
                   SetId d (StringValue (RepositoryName repository)), log3)"
  using assms by (simp add: resourceRepositoryCreate_def Let_def AppendErrorf_def SetId_def)

text \<open>
  C4. The ECR repository was created without tags after the unsupported signature, and
  the deferred tagging call fails with that signature too. When the resource's own tag
  map is empty (the tags came from the default tags only) the failure is not reported:
  Create returns what the read returns. When the resource has tags of its own, Create
  returns the error diagnostic of the tagging call and does not read.
\<close>

theorem resourceRepositoryCreate_deferred_tagging_unsupported:
  "tags = MergeTags (DefaultTagsConfig meta) (tagmaps d ''tags'') \<and> tags \<noteq> [] \<and>
   Partition meta \<noteq> AwsPartitionID \<and>
   input1 = \<lparr>in_ImageTagMutability = Some (strs d ''image_tag_mutability''),
              in_RepositoryName = Some (strs d ''name''),
              in_Tags = Some (IgnoreAWS tags)\<rparr> \<and>
   ErrorISOUnsupported (ISOUnsupportedSignature meta) (PartitionID conn)
     (snd (CreateRepositoryWithContext conn log input1)) \<and>
   CreateRepositoryWithContext conn (log @ [CreateRepository input1]) (input1\<lparr>in_Tags := None\<rparr>)
     = (Some repository, None) \<and>
   log3 = log @ [CreateRepository input1, CreateRepository (input1\<lparr>in_Tags := None\<rparr>),
                 UpdateTags_call (StringValue (RepositoryArn repository)) [] tags] \<and>
   e3 = UpdateTags conn (log @ [CreateRepository input1, CreateRepository (input1\<lparr>in_Tags := None\<rparr>)])
          (StringValue (RepositoryArn repository)) [] tags \<and>
   ErrorISOUnsupported (ISOUnsupportedSignature meta) (PartitionID conn) e3
   \<longrightarrow>
   (tagmaps d ''tags'' = []
      \<longrightarrow> resourceRepositoryCreate meta conn d log
          = resourceRepositoryRead meta conn (SetId d (StringValue (RepositoryName repository))) log3)
   \<and>
   (tagmaps d ''tags'' \<noteq> []
      \<longrightarrow> resourceRepositoryCreate meta conn d log
          = Return ([Diag Error ''adding tags after create for ECR Repository (%s): %s''
                       [ArgS (StringValue (RepositoryName repository)), ArgE e3]],
                    SetId d (StringValue (RepositoryName repository)), log3))"
proof (intro impI)
  assume a: "tags = MergeTags (DefaultTagsConfig meta) (tagmaps d ''tags'') \<and> tags \<noteq> [] \<and>
   Partition meta \<noteq> AwsPartitionID \<and>
   input1 = \<lparr>in_ImageTagMutability = Some (strs d ''image_tag_mutability''),
              in_RepositoryName = Some (strs d ''name''),
              in_Tags = Some (IgnoreAWS tags)\<rparr> \<and>
   ErrorISOUnsupported (ISOUnsupportedSignature meta) (PartitionID conn)
     (snd (CreateRepositoryWithContext conn log input1)) \<and>
   CreateRepositoryWithContext conn (log @ [CreateRepository input1]) (input1\<lparr>in_Tags := None\<rparr>)
     = (Some repository, None) \<and>
   log3 = log @ [CreateRepository input1, CreateRepository (input1\<lparr>in_Tags := None\<rparr>),
                 UpdateTags_call (StringValue (RepositoryArn repository)) [] tags] \<and>
   e3 = UpdateTags conn (log @ [CreateRepository input1, CreateRepository (input1\<lparr>in_Tags := None\<rparr>)])
          (StringValue (RepositoryArn repository)) [] tags \<and>
   ErrorISOUnsupported (ISOUnsupportedSignature meta) (PartitionID conn) e3"
  then have "ErrorISOUnsupported (ISOUnsupportedSignature meta) (PartitionID conn) e3"
    by blast
  then obtain y where y: "e3 = Some y"
    by (cases e3) (simp_all add: ErrorISOUnsupported_def)
  have ne: "e3 \<noteq> None"
    using y by simp
  show "(tagmaps d ''tags'' = []
      \<longrightarrow> resourceRepositoryCreate meta conn d log
          = resourceRepositoryRead meta conn (SetId d (StringValue (RepositoryName repository))) log3)
   \<and>
   (tagmaps d ''tags'' \<noteq> []
      \<longrightarrow> resourceRepositoryCreate meta conn d log
          = Return ([Diag Error ''adding tags after create for ECR Repository (%s): %s''
                       [ArgS (StringValue (RepositoryName repository)), ArgE e3]],
                    SetId d (StringValue (RepositoryName repository)), log3))"
    using a ne
      resourceRepositoryCreate_deferred_default_only [of d tags meta input1 log3 log repository e3 conn]
      resourceRepositoryCreate_deferred_explicit [of d tags meta input1 log3 log repository e3 conn]
    by blast
qed

theorem resourceRepositoryCreate_deferred_tagging_unsupported_witness:
  "(case resourceRepositoryCreate meta_iso ecr_no_tagging d_new_app [] of
      Return (diags, d', log') \<Rightarrow>
        diags = [] \<and> ID d' = ''app'' \<and>
        log' = [CreateRepository (input_app (Some [(''env'', ''prod'')])),
                CreateRepository (input_app None),
                UpdateTags_call ''arn:aws-iso:ecr:r1:1:repository/app'' [] [(''env'', ''prod'')],
                DescribeRepositories [''app''],
                ListTags_call ''arn:aws-iso:ecr:r1:1:repository/app'']
    | Panic \<Rightarrow> False)
   \<and>
   (case resourceRepositoryCreate meta_iso ecr_no_tagging d_new_app_tagged [] of
      Return (diags, d', log') \<Rightarrow>
        diags = [Diag Error ''adding tags after create for ECR Repository (%s): %s''
                   [ArgS ''app'', ArgE (Some unsupported)]] \<and>
        ID d' = ''app'' \<and>
        log' = [CreateRepository (input_app (Some [(''team'', ''infra''), (''env'', ''prod'')])),
                CreateRepository (input_app None),
                UpdateTags_call ''arn:aws-iso:ecr:r1:1:repository/app'' []
                  [(''team'', ''infra''), (''env'', ''prod'')]]
    | Panic \<Rightarrow> False)"
proof -
  have r: "resourceRepositoryRead meta_iso ecr_no_tagging (SetId d_new_app ''app'')
             [CreateRepository (input_app (Some [(''env'', ''prod'')])),
              CreateRepository (input_app None),
              UpdateTags_call ''arn:aws-iso:ecr:r1:1:repository/app'' [] [(''env'', ''prod'')]]
           = Return ([],
               Set_tags (Set_tags
                 (Set_str (Set_str (Set_str (Set_str (Set_str (SetId d_new_app ''app'')
                    ''arn'' ''arn:aws-iso:ecr:r1:1:repository/app'')
                    ''image_tag_mutability'' ''MUTABLE'') ''name'' ''app'') ''registry_id'' ''1'')
                    ''repository_url'' ''1.dkr.ecr.r1/app'')
                 ''tags'' []) ''tags_all'' [],
               [CreateRepository (input_app (Some [(''env'', ''prod'')])),
                CreateRepository (input_app None),
                UpdateTags_call ''arn:aws-iso:ecr:r1:1:repository/app'' [] [(''env'', ''prod'')],
                DescribeRepositories [''app''],
                ListTags_call ''arn:aws-iso:ecr:r1:1:repository/app''])"
    by (simp add: resourceRepositoryRead_def RetryWhenNewResourceNotFound_def RetryWhen_def
          RetryWhen_from.simps FindRepositoryByName_def FindRepository_def as_pair_def
          ecr_no_tagging_def ecr_base_def repo_app_def d_new_app_def d_app_def meta_iso_def
          SetId_def StringValue_def ErrCodeEquals_def NotFound_def ErrorISOUnsupported_def
          IgnoreAWS_def IgnoreConfig_tags_def RemoveDefaultConfig_def Let_def)
  have one: "resourceRepositoryCreate meta_iso ecr_no_tagging d_new_app []
        = resourceRepositoryRead meta_iso ecr_no_tagging (SetId d_new_app ''app'')
            [CreateRepository (input_app (Some [(''env'', ''prod'')])),
             CreateRepository (input_app None),
             UpdateTags_call ''arn:aws-iso:ecr:r1:1:repository/app'' [] [(''env'', ''prod'')]]"
    using resourceRepositoryCreate_deferred_tagging_unsupported
      [where tags = "[(''env'', ''prod'')]" and meta = meta_iso and d = d_new_app
         and ?input1.0 = "input_app (Some [(''env'', ''prod'')])" and conn = ecr_no_tagging
         and log = "[]" and repository = repo_app
         and ?log3.0 = "[CreateRepository (input_app (Some [(''env'', ''prod'')])),
                      CreateRepository (input_app None),
                      UpdateTags_call ''arn:aws-iso:ecr:r1:1:repository/app'' [] [(''env'', ''prod'')]]"
         and ?e3.0 = "Some unsupported"]
    by (simp add: meta_iso_def ecr_no_tagging_def ecr_base_def d_new_app_def d_app_def input_app_def
          repo_app_def unsupported_def MergeTags_def IgnoreAWS_def AwsTagKeyPrefix_def
          AwsPartitionID_def ErrorISOUnsupported_def StringValue_def)
  have two: "resourceRepositoryCreate meta_iso ecr_no_tagging d_new_app_tagged []
        = Return ([Diag Error ''adding tags after create for ECR Repository (%s): %s''
                     [ArgS ''app'', ArgE (Some unsupported)]],
                  SetId d_new_app_tagged ''app'',
                  [CreateRepository (input_app (Some [(''team'', ''infra''), (''env'', ''prod'')])),
                   CreateRepository (input_app None),
                   UpdateTags_call ''arn:aws-iso:ecr:r1:1:repository/app'' []
                     [(''team'', ''infra''), (''env'', ''prod'')]])"
    using resourceRepositoryCreate_deferred_tagging_unsupported
      [where tags = "[(''team'', ''infra''), (''env'', ''prod'')]" and meta = meta_iso
         and d = d_new_app_tagged
         and ?input1.0 = "input_app (Some [(''team'', ''infra''), (''env'', ''prod'')])"
         and conn = ecr_no_tagging and log = "[]" and repository = repo_app
         and ?log3.0 = "[CreateRepository (input_app (Some [(''team'', ''infra''), (''env'', ''prod'')])),
                      CreateRepository (input_app None),
                      UpdateTags_call ''arn:aws-iso:ecr:r1:1:repository/app'' []
                        [(''team'', ''infra''), (''env'', ''prod'')]]"
         and ?e3.0 = "Some unsupported"]
    by (simp add: meta_iso_def ecr_no_tagging_def ecr_base_def d_new_app_tagged_def d_app_def
          input_app_def repo_app_def unsupported_def MergeTags_def IgnoreAWS_def AwsTagKeyPrefix_def
          AwsPartitionID_def ErrorISOUnsupported_def StringValue_def)
  show ?thesis
    unfolding one two r by (simp add: SetId_def Set_str_def Set_tags_def)
qed

subsection \<open>Tags written and tags shown\<close>












subsection \<open>Solution stack data source\<close>

lemma filterSolutionStacks_names:
  "filterSolutionStacks r (map Some names) filtered = Return (filtered @ map Some (filter r names))"
  by (induction names arbitrary: filtered) auto

text \<open>
  C10. On a non-empty list \<open>mostRecentSolutionStack\<close> returns the first element. Hence,
  when the names the remote lists match the pattern two or more times and
  \<open>most_recent\<close> is set, the data source selects the first match in the order of the
  remote's response: no recency comparison is made.
\<close>

theorem mostRecentSolutionStack_first:
  "(solutionStacks \<noteq> [] \<longrightarrow> mostRecentSolutionStack solutionStacks = Return (hd solutionStacks))
   \<and>
   (compile (strs d ''name_regex'') = Some r \<and> bools d ''most_recent'' \<and>
    2 \<le> length (filter r names)
    \<longrightarrow> dataSourceSolutionStackRead compile (Some (map Some names), None) d
          = Return ([], Set_str (SetId d (hd (filter r names))) ''name'' (hd (filter r names))))"
proof (intro conjI impI)
  assume "solutionStacks \<noteq> []"
  then show "mostRecentSolutionStack solutionStacks = Return (hd solutionStacks)"
    by (cases solutionStacks) (simp_all add: mostRecentSolutionStack_def)
next
  assume a: "compile (strs d ''name_regex'') = Some r \<and> bools d ''most_recent'' \<and>
    2 \<le> length (filter r names)"
  then obtain x y rest where m: "filter r names = x # y # rest"
    by (cases "filter r names"; cases "tl (filter r names)") auto
  show "dataSourceSolutionStackRead compile (Some (map Some names), None) d
          = Return ([], Set_str (SetId d (hd (filter r names))) ''name'' (hd (filter r names)))"
    using a by (simp add: dataSourceSolutionStackRead_def filterSolutionStacks_names m
        mostRecentSolutionStack_def StringValue_def)
qed

theorem mostRecentSolutionStack_first_witness:
  "mostRecentSolutionStack [Some ''64bit Amazon Linux 2 v3.4.0 running Go 1'', Some ''64bit Amazon Linux 2 v3.5.0 running Go 1'']
     = Return (Some ''64bit Amazon Linux 2 v3.4.0 running Go 1'')
   \<and> (case dataSourceSolutionStackRead (\<lambda>p. Some (\<lambda>s. has_prefix s p))
              (Some [Some ''64bit Amazon Linux 2 v3.4.0 running Go 1'', Some ''PHP 8.0'',
                     Some ''64bit Amazon Linux 2 v3.5.0 running Go 1''], None)
              \<lparr>ID = [], IsNewResource = False,
               strs = (\<lambda>k. if k = ''name_regex'' then ''64bit'' else []),
               bools = (\<lambda>k. k = ''most_recent''), tagmaps = (\<lambda>k. []), timeouts = (\<lambda>k. 0)\<rparr> of
         Return (diags, d') \<Rightarrow> diags = [] \<and> ID d' = ''64bit Amazon Linux 2 v3.4.0 running Go 1''
       | Panic \<Rightarrow> False)"
  using mostRecentSolutionStack_first
    [of "[Some ''64bit Amazon Linux 2 v3.4.0 running Go 1'', Some ''64bit Amazon Linux 2 v3.5.0 running Go 1'']"
        "\<lambda>p. Some (\<lambda>s. has_prefix s p)"
        "\<lparr>ID = [], IsNewResource = False,
               strs = (\<lambda>k. if k = ''name_regex'' then ''64bit'' else []),
               bools = (\<lambda>k. k = ''most_recent''), tagmaps = (\<lambda>k. []), timeouts = (\<lambda>k. 0)\<rparr>"
        "\<lambda>s. has_prefix s ''64bit''"
        "[''64bit Amazon Linux 2 v3.4.0 running Go 1'', ''PHP 8.0'', ''64bit Amazon Linux 2 v3.5.0 running Go 1'']"]
  by (simp add: SetId_def Set_str_def)

end
